theory Spec2Isabelle
  imports Main "HOL-Library.Word"
begin

unbundle bit_operations_syntax

section \<open>Configuration constants\<close>

text \<open>
  The header \<^verbatim>\<open>config.h\<close> is not part of the sources.  The constants whose value the
  specification does not fix are collected in a record that every operation takes as its
  first argument.
\<close>

record config =
  MEMORY_AVAILABLE_SPACE :: "32 word"
  MEMORY_ADDRESS_OFFSET :: "32 word"
  NAME_MAX_LEN :: nat
  MAX_NUM_DIGITS :: nat

text \<open>
  One configuration for the concrete scenarios: addresses start at 100, as in the
  scenarios of the specification, and 156 words are available.
\<close>

definition scenario_config :: config where
  "scenario_config =
     \<lparr>MEMORY_AVAILABLE_SPACE = 156, MEMORY_ADDRESS_OFFSET = 100, NAME_MAX_LEN = 30,
      MAX_NUM_DIGITS = 5\<rparr>"

section \<open>Assembler state\<close>

text \<open>
  Every intrusive linked list of the source (\<^verbatim>\<open>next\<close> pointers, append at the tail) is a
  HOL list in insertion order.  \<^verbatim>\<open>unsigned int\<close> is \<open>32 word\<close>, \<^verbatim>\<open>unsigned short\<close> is
  \<open>16 word\<close>, \<^verbatim>\<open>int\<close> is \<open>int\<close>.
\<close>

record inst_mem =
  i_value :: int
  i_address :: "32 word"

record data_mem =
  d_value :: int
  d_address :: "32 word"

datatype def_type = NORMAL | EXTERN

datatype addr_type = CODE | DATA | UNKNOWN_ADDR_TYPE

record label =
  l_name :: string
  l_address :: "32 word"
  l_type :: addr_type
  l_definition :: def_type
  l_is_entry :: bool

record external =
  e_label_name :: string
  e_mem_address :: "32 word"

record macro =
  m_name :: string
  m_content :: string
  m_lines :: int
  m_define_line :: int

datatype encoding_type = ABSOLUTE | EXTERNAL | RELOCATABLE | UNKNOWN

datatype addr_Mode = IMMEDIATE_ACCESS | DIRECT_ACCESS | MATRIX_ACCESS | REGISTER_ACCESS

text \<open>
  The operand value is a C union selected by the field \<^verbatim>\<open>type\<close>; the model is the tagged
  union, and the addressing mode is read off the tag.
\<close>

datatype operand_val =
    Val int
  | Reg int
  | Label string
  | Matrix string int int encoding_type

record operand =
  op_val :: operand_val
  op_encoding :: encoding_type
  op_file_line :: int

record address_update_request =
  r_operand :: operand
  r_address :: "32 word"

text \<open>Diagnostics written to standard output, by the numbered code of the source.\<close>

datatype diagnostic = External_error nat | Internal_error nat | System_error nat

record assembler_context =
  as_file_line :: int
  am_file_line :: int
  second_pass_error_line :: int
  DC :: "32 word"
  IC :: "32 word"
  memory_usage :: "32 word"
  preproc_error :: bool
  first_pass_error :: bool
  second_pass_error :: bool
  data_memory :: "data_mem list"
  instruction_memory :: "inst_mem list"
  external_labels :: "external list"
  labels :: "label list"
  macros :: "macro list"
  address_update_requests :: "address_update_request list"
  lines_maper :: "(int \<times> int) list"
  am_file :: "string option"
  printed :: "diagnostic list"

definition init_assembler :: assembler_context where
  "init_assembler = \<lparr>
     as_file_line = 0, am_file_line = 0, second_pass_error_line = 0,
     DC = 0, IC = 0, memory_usage = 0,
     preproc_error = False, first_pass_error = False, second_pass_error = False,
     data_memory = [], instruction_memory = [], external_labels = [], labels = [],
     macros = [], address_update_requests = [], lines_maper = [],
     am_file = None, printed = [] \<rparr>"

definition print_external_error :: "nat \<Rightarrow> assembler_context \<Rightarrow> assembler_context" where
  "print_external_error code ctx = ctx\<lparr>printed := printed ctx @ [External_error code]\<rparr>"

definition print_internal_error :: "nat \<Rightarrow> assembler_context \<Rightarrow> assembler_context" where
  "print_internal_error code ctx = ctx\<lparr>printed := printed ctx @ [Internal_error code]\<rparr>"

section \<open>Code image and data image\<close>

text \<open>
  \<^verbatim>\<open>add_instruction_to_memory\<close> and \<^verbatim>\<open>add_data_to_memory\<close> receive pointers to the image,
  to the counter and to \<^verbatim>\<open>memory_usage\<close>; every caller passes the fields of the one
  context, so the model updates the context.  The result pairs the returned boolean with
  the state after the call.
\<close>

definition add_instruction_to_memory ::
  "config \<Rightarrow> 16 word \<Rightarrow> assembler_context \<Rightarrow> bool \<times> assembler_context" where
  "add_instruction_to_memory cfg encoded_val ctx =
     (if memory_usage ctx = MEMORY_AVAILABLE_SPACE cfg then (False, ctx)
      else (True, ctx\<lparr>
              instruction_memory :=
                instruction_memory ctx @ [\<lparr>i_value = uint encoded_val, i_address = IC ctx\<rparr>],
              IC := IC ctx + 1,
              memory_usage := memory_usage ctx + 1\<rparr>))"

definition add_data_to_memory ::
  "config \<Rightarrow> int \<Rightarrow> assembler_context \<Rightarrow> bool \<times> assembler_context" where
  "add_data_to_memory cfg val ctx =
     (if memory_usage ctx \<ge> MEMORY_AVAILABLE_SPACE cfg then (False, ctx)
      else (True, ctx\<lparr>
              data_memory := data_memory ctx @ [\<lparr>d_value = val, d_address = DC ctx\<rparr>],
              DC := DC ctx + 1,
              memory_usage := memory_usage ctx + 1\<rparr>))"

section \<open>Capacity of the two images\<close>

lemma unat_succ_below:
  fixes m c :: "32 word"
  assumes "m \<le> c" "m \<noteq> c"
  shows "unat (m + 1) = unat m + 1"
proof -
  from assms have "unat m < unat c"
    by (simp add: word_less_nat_alt [symmetric])
  moreover have "unat c < 2 ^ 32"
    using unsigned_less [of c, where 'a = nat] by simp
  ultimately have "unat m + unat (1 :: 32 word) < 2 ^ LENGTH(32)" by simp
  then show ?thesis
    using unat_add_lem [of m 1] by simp
qed

lemma unat_counter_succ:
  fixes k m :: "32 word"
  assumes "unat m = unat k + j" "unat (m + 1) = unat m + 1"
  shows "unat (k + 1) = unat k + 1"
proof -
  have "unat (m + 1) < 2 ^ 32"
    using unsigned_less [of "m + 1", where 'a = nat] by simp
  then have "unat k + unat (1 :: 32 word) < 2 ^ LENGTH(32)" using assms by simp
  then show ?thesis
    using unat_add_lem [of k 1] by simp
qed

text \<open>
  Claim C4.  While \<open>memory_usage = IC + DC\<close> has not passed the capacity, appending a
  word to either image fails exactly when \<open>memory_usage\<close> equals the capacity.  A failed
  append returns the context as it was.  A successful append puts the word at the end of
  its image with the current counter as its address, adds one to that counter and to
  \<open>memory_usage\<close> (without wrap-around), leaves the other image and counter alone, and
  keeps \<open>memory_usage = IC + DC\<close>.
\<close>

theorem append_word_capacity:
  assumes bound: "memory_usage ctx \<le> MEMORY_AVAILABLE_SPACE cfg"
    and inv: "unat (memory_usage ctx) = unat (IC ctx) + unat (DC ctx)"
  shows "(\<not> fst (add_instruction_to_memory cfg w ctx)
            \<longleftrightarrow> memory_usage ctx = MEMORY_AVAILABLE_SPACE cfg)
       \<and> (\<not> fst (add_data_to_memory cfg v ctx)
            \<longleftrightarrow> memory_usage ctx = MEMORY_AVAILABLE_SPACE cfg)
       \<and> (memory_usage ctx = MEMORY_AVAILABLE_SPACE cfg \<longrightarrow>
            snd (add_instruction_to_memory cfg w ctx) = ctx
          \<and> snd (add_data_to_memory cfg v ctx) = ctx)
       \<and> (memory_usage ctx \<noteq> MEMORY_AVAILABLE_SPACE cfg \<longrightarrow>
            (let ci = snd (add_instruction_to_memory cfg w ctx);
                 cd = snd (add_data_to_memory cfg v ctx)
             in instruction_memory ci
                  = instruction_memory ctx @ [\<lparr>i_value = uint w, i_address = IC ctx\<rparr>]
              \<and> data_memory ci = data_memory ctx
              \<and> unat (IC ci) = unat (IC ctx) + 1 \<and> DC ci = DC ctx
              \<and> unat (memory_usage ci) = unat (memory_usage ctx) + 1
              \<and> unat (memory_usage ci) = unat (IC ci) + unat (DC ci)
              \<and> data_memory cd = data_memory ctx @ [\<lparr>d_value = v, d_address = DC ctx\<rparr>]
              \<and> instruction_memory cd = instruction_memory ctx
              \<and> unat (DC cd) = unat (DC ctx) + 1 \<and> IC cd = IC ctx
              \<and> unat (memory_usage cd) = unat (memory_usage ctx) + 1
              \<and> unat (memory_usage cd) = unat (IC cd) + unat (DC cd)))"
proof -
  have fails: "memory_usage ctx \<ge> MEMORY_AVAILABLE_SPACE cfg
                 \<longleftrightarrow> memory_usage ctx = MEMORY_AVAILABLE_SPACE cfg"
    using bound by auto
  {
    assume ne: "memory_usage ctx \<noteq> MEMORY_AVAILABLE_SPACE cfg"
    have mu: "unat (memory_usage ctx + 1) = unat (memory_usage ctx) + 1"
      using unat_succ_below [OF bound ne] .
    have ic: "unat (IC ctx + 1) = unat (IC ctx) + 1"
      using unat_counter_succ [OF inv mu] .
    have inv': "unat (memory_usage ctx) = unat (DC ctx) + unat (IC ctx)"
      using inv by simp
    have dc: "unat (DC ctx + 1) = unat (DC ctx) + 1"
      using unat_counter_succ [OF inv' mu] .
    note mu ic dc
  }
  note steps = this
  show ?thesis
    using fails inv steps
    by (simp add: add_instruction_to_memory_def add_data_to_memory_def Let_def)
qed

theorem append_word_capacity_witness:
  "(let ci = snd (add_instruction_to_memory scenario_config 960 init_assembler);
        cd = snd (add_data_to_memory scenario_config 5 init_assembler)
    in memory_usage init_assembler \<le> MEMORY_AVAILABLE_SPACE scenario_config
     \<and> fst (add_instruction_to_memory scenario_config 960 init_assembler)
     \<and> fst (add_data_to_memory scenario_config 5 init_assembler)
     \<and> instruction_memory ci = [\<lparr>i_value = 960, i_address = 0\<rparr>]
     \<and> unat (IC ci) = 1 \<and> unat (memory_usage ci) = 1
     \<and> data_memory cd = [\<lparr>d_value = 5, d_address = 0\<rparr>]
     \<and> unat (DC cd) = 1 \<and> unat (memory_usage cd) = 1)"
  using append_word_capacity [of init_assembler scenario_config 960 5]
  by (simp add: init_assembler_def scenario_config_def Let_def)

section \<open>Opcode table and bit fields\<close>

text \<open>The mode groups \<^verbatim>\<open>ALL\<close> and \<^verbatim>\<open>NONE\<close> of the source are \<open>AM_ALL\<close> and \<open>AM_NONE\<close> here.\<close>

record opcode =
  oc_opcode :: int
  oc_name :: string
  oc_operands_amount :: int
  oc_source :: int
  oc_dest :: int
  oc_encoding :: encoding_type

fun encoding_code :: "encoding_type \<Rightarrow> int" where
  "encoding_code ABSOLUTE = 0"
| "encoding_code EXTERNAL = 1"
| "encoding_code RELOCATABLE = 2"
| "encoding_code UNKNOWN = 3"

fun addr_mode_code :: "addr_Mode \<Rightarrow> int" where
  "addr_mode_code IMMEDIATE_ACCESS = 0"
| "addr_mode_code DIRECT_ACCESS = 1"
| "addr_mode_code MATRIX_ACCESS = 2"
| "addr_mode_code REGISTER_ACCESS = 3"

definition AM_BIT :: "addr_Mode \<Rightarrow> int" where
  "AM_BIT m = push_bit (nat (addr_mode_code m)) 1"

definition AM_1_2 :: int where
  "AM_1_2 = AM_BIT DIRECT_ACCESS OR AM_BIT MATRIX_ACCESS"

definition AM_1_2_3 :: int where
  "AM_1_2_3 = AM_BIT DIRECT_ACCESS OR AM_BIT MATRIX_ACCESS OR AM_BIT REGISTER_ACCESS"

definition AM_ALL :: int where
  "AM_ALL = AM_BIT DIRECT_ACCESS OR AM_BIT MATRIX_ACCESS OR AM_BIT REGISTER_ACCESS
           OR AM_BIT IMMEDIATE_ACCESS"

definition AM_NONE :: int where
  "AM_NONE = 0"

definition mk_opcode ::
  "int \<Rightarrow> string \<Rightarrow> int \<Rightarrow> int \<Rightarrow> int \<Rightarrow> encoding_type \<Rightarrow> opcode" where
  "mk_opcode c n k s d e =
     \<lparr>oc_opcode = c, oc_name = n, oc_operands_amount = k, oc_source = s, oc_dest = d,
      oc_encoding = e\<rparr>"

definition opcode_table :: "opcode list" where
  "opcode_table =
    [mk_opcode 0 ''mov'' 2 AM_ALL AM_1_2_3 ABSOLUTE,
     mk_opcode 1 ''cmp'' 2 AM_ALL AM_ALL ABSOLUTE,
     mk_opcode 2 ''add'' 2 AM_ALL AM_1_2_3 ABSOLUTE,
     mk_opcode 3 ''sub'' 2 AM_ALL AM_1_2_3 ABSOLUTE,
     mk_opcode 4 ''lea'' 2 AM_1_2 AM_1_2_3 ABSOLUTE,
     mk_opcode 5 ''clr'' 1 AM_NONE AM_1_2_3 ABSOLUTE,
     mk_opcode 6 ''not'' 1 AM_NONE AM_1_2_3 ABSOLUTE,
     mk_opcode 7 ''inc'' 1 AM_NONE AM_1_2_3 ABSOLUTE,
     mk_opcode 8 ''dec'' 1 AM_NONE AM_1_2_3 ABSOLUTE,
     mk_opcode 9 ''jmp'' 1 AM_NONE AM_1_2_3 ABSOLUTE,
     mk_opcode 10 ''bne'' 1 AM_NONE AM_1_2_3 ABSOLUTE,
     mk_opcode 11 ''jsr'' 1 AM_NONE AM_1_2_3 ABSOLUTE,
     mk_opcode 12 ''red'' 1 AM_NONE AM_1_2_3 ABSOLUTE,
     mk_opcode 13 ''prn'' 1 AM_NONE AM_ALL ABSOLUTE,
     mk_opcode 14 ''rts'' 0 AM_NONE AM_NONE ABSOLUTE,
     mk_opcode 15 ''stop'' 0 AM_NONE AM_NONE ABSOLUTE]"

definition registers :: "string list" where
  "registers = [''r0'', ''r1'', ''r2'', ''r3'', ''r4'', ''r5'', ''r6'', ''r7'']"

text \<open>
  Modelled from the spec: the bit-field macros of the missing \<^verbatim>\<open>config.h\<close>.  The main
  word holds the opcode in bits 9..6, the source mode in bits 5..4, the destination mode in
  bits 3..2 and the ERA in bits 1..0; an operand word holds eight data bits in 9..2, a
  register word the source register in 9..6 and the destination register in 5..2.  An
  immediate ranges over -128..127 and a register over 0..7, which fixes the signed bounds
  \<^verbatim>\<open>MAX_NUM\<close> and \<^verbatim>\<open>MIN_NUM\<close> of a field; \<^verbatim>\<open>U_MAX_NUM\<close> is the largest unsigned value of
  a field.
\<close>

definition OPCODE_BITS :: nat where "OPCODE_BITS = 4"
definition OPCODE_BITS_SHIFT :: nat where "OPCODE_BITS_SHIFT = 6"
definition SRC_ADDR_MODE_BITS :: nat where "SRC_ADDR_MODE_BITS = 2"
definition SRC_ADDR_MODE_BITS_SHIFT :: nat where "SRC_ADDR_MODE_BITS_SHIFT = 4"
definition SRC_ADDR_MODE_BITS_MASK :: "16 word" where "SRC_ADDR_MODE_BITS_MASK = 0x30"
definition DEST_ADDR_MODE_BITS :: nat where "DEST_ADDR_MODE_BITS = 2"
definition DEST_ADDR_MODE_BITS_SHIFT :: nat where "DEST_ADDR_MODE_BITS_SHIFT = 2"
definition DEST_ADDR_MODE_BITS_MASK :: "16 word" where "DEST_ADDR_MODE_BITS_MASK = 0x0C"
definition E_R_A_BITS :: nat where "E_R_A_BITS = 2"
definition E_R_A_BITS_SHIFT :: nat where "E_R_A_BITS_SHIFT = 0"
definition E_R_A_BITS_MASK :: "16 word" where "E_R_A_BITS_MASK = 0x03"
definition OPERAND_DATA_BITS :: nat where "OPERAND_DATA_BITS = 8"
definition OPERAND_DATA_BITS_SHIFT :: nat where "OPERAND_DATA_BITS_SHIFT = 2"
definition OPERAND_DATA_BITS_MASK :: "16 word" where "OPERAND_DATA_BITS_MASK = 0x3FC"
definition OPERAND_DATA_SRC_REG_BITS :: nat where "OPERAND_DATA_SRC_REG_BITS = 4"
definition OPERAND_DATA_SRC_REG_SHIFT :: nat where "OPERAND_DATA_SRC_REG_SHIFT = 6"
definition OPERAND_DATA_DEST_REG_BITS :: nat where "OPERAND_DATA_DEST_REG_BITS = 4"
definition OPERAND_DATA_DEST_REG_SHIFT :: nat where "OPERAND_DATA_DEST_REG_SHIFT = 2"
definition WORD_BIT_SIZE :: nat where "WORD_BIT_SIZE = 10"
definition WORD_BIT_MASK :: "16 word" where "WORD_BIT_MASK = 0x3FF"
definition EXTERNAL_TEMP_ADDR :: "32 word" where "EXTERNAL_TEMP_ADDR = 0"

definition U_MAX_NUM :: "nat \<Rightarrow> int" where "U_MAX_NUM bits = 2 ^ bits - 1"
definition U_MIN_NUM :: int where "U_MIN_NUM = 0"
definition MAX_NUM :: "nat \<Rightarrow> int" where "MAX_NUM bits = 2 ^ (bits - 1) - 1"
definition MIN_NUM :: "nat \<Rightarrow> int" where "MIN_NUM bits = - (2 ^ (bits - 1))"

lemmas field_consts =
  OPCODE_BITS_def OPCODE_BITS_SHIFT_def SRC_ADDR_MODE_BITS_def SRC_ADDR_MODE_BITS_SHIFT_def
  SRC_ADDR_MODE_BITS_MASK_def DEST_ADDR_MODE_BITS_def DEST_ADDR_MODE_BITS_SHIFT_def
  DEST_ADDR_MODE_BITS_MASK_def E_R_A_BITS_def E_R_A_BITS_SHIFT_def E_R_A_BITS_MASK_def
  OPERAND_DATA_BITS_def OPERAND_DATA_BITS_SHIFT_def OPERAND_DATA_BITS_MASK_def
  OPERAND_DATA_SRC_REG_BITS_def OPERAND_DATA_SRC_REG_SHIFT_def
  OPERAND_DATA_DEST_REG_BITS_def OPERAND_DATA_DEST_REG_SHIFT_def WORD_BIT_SIZE_def
  WORD_BIT_MASK_def U_MAX_NUM_def U_MIN_NUM_def MAX_NUM_def MIN_NUM_def

section \<open>Instruction encoder\<close>

text \<open>
  \<^verbatim>\<open>print_system_error\<close> prints and calls \<^verbatim>\<open>exit(1)\<close>: a function that reaches it does
  not return.  \<open>Exit n\<close> is that outcome, with the number of the system error;
  \<open>Return x\<close> is a normal return.
\<close>

datatype 'a outcome = Exit nat | Return 'a

text \<open>The addressing mode of an operand is the tag of the union member it holds.\<close>

fun op_type :: "operand \<Rightarrow> addr_Mode" where
  "op_type p = (case op_val p of
                  Val _ \<Rightarrow> IMMEDIATE_ACCESS
                | Reg _ \<Rightarrow> REGISTER_ACCESS
                | Label _ \<Rightarrow> DIRECT_ACCESS
                | Matrix _ _ _ _ \<Rightarrow> MATRIX_ACCESS)"

definition add_addr_update_request ::
  "32 word \<Rightarrow> operand \<Rightarrow> assembler_context \<Rightarrow> assembler_context" where
  "add_addr_update_request IC_addr p ctx =
     ctx\<lparr>address_update_requests :=
           address_update_requests ctx @ [\<lparr>r_operand = p, r_address = IC_addr\<rparr>]\<rparr>"

datatype operand_slot = DESTINATION | SOURCE

record enc_state =
  machine_word :: "16 word"
  mat_regs_machine_word :: "16 word"
  machine_code_buff :: "16 word list"
  local_IC :: "32 word"

text \<open>
  The \<^verbatim>\<open>switch\<close> on the operand type inside the loop of \<^verbatim>\<open>instruction_encoder\<close>: it
  fills the data bits of \<open>machine_word\<close> (or of \<open>mat_regs_machine_word\<close>) and queues a
  fix-up request for a label.  A register outside its field prints a system error, which
  ends the process.
\<close>

definition encode_operand_data ::
  "operand_slot \<Rightarrow> operand \<Rightarrow> enc_state \<Rightarrow> assembler_context
     \<Rightarrow> (bool \<times> enc_state \<times> assembler_context) outcome" where
  "encode_operand_data slot p st ctx =
     (case op_val p of
        Val v \<Rightarrow>
          if v > MAX_NUM OPERAND_DATA_BITS \<or> v < MIN_NUM OPERAND_DATA_BITS
          then Return (False, st, print_external_error 143 ctx)
          else Return (True,
                 st\<lparr>machine_word :=
                      machine_word st OR word_of_int (push_bit OPERAND_DATA_BITS_SHIFT v)\<rparr>,
                 ctx)
      | Reg r \<Rightarrow>
          (case slot of
             DESTINATION \<Rightarrow>
               if r > MAX_NUM OPERAND_DATA_DEST_REG_BITS \<or> r < MIN_NUM OPERAND_DATA_DEST_REG_BITS
               then Exit 6
               else Return (True,
                      st\<lparr>machine_word :=
                           machine_word st
                             OR word_of_int (push_bit OPERAND_DATA_DEST_REG_SHIFT r)\<rparr>,
                      ctx)
           | SOURCE \<Rightarrow>
               if r > MAX_NUM OPERAND_DATA_SRC_REG_BITS \<or> r < MIN_NUM OPERAND_DATA_SRC_REG_BITS
               then Exit 7
               else Return (True,
                      st\<lparr>machine_word :=
                           machine_word st
                             OR word_of_int (push_bit OPERAND_DATA_SRC_REG_SHIFT r)\<rparr>,
                      ctx))
      | Label _ \<Rightarrow> Return (True, st, add_addr_update_request (local_IC st) p ctx)
      | Matrix _ reg_1 reg_2 _ \<Rightarrow>
          (let ctx1 = add_addr_update_request (local_IC st) p ctx;
               mr = mat_regs_machine_word st AND NOT OPERAND_DATA_BITS_MASK
           in if reg_1 > MAX_NUM OPERAND_DATA_SRC_REG_BITS
                 \<or> reg_1 < MIN_NUM OPERAND_DATA_SRC_REG_BITS
                 \<or> reg_2 > MAX_NUM OPERAND_DATA_DEST_REG_BITS
                 \<or> reg_2 < MIN_NUM OPERAND_DATA_DEST_REG_BITS
              then Exit 8
              else Return (True,
                     st\<lparr>mat_regs_machine_word :=
                          mr OR word_of_int (push_bit OPERAND_DATA_SRC_REG_SHIFT reg_1)
                             OR word_of_int (push_bit OPERAND_DATA_DEST_REG_SHIFT reg_2)\<rparr>,
                     ctx1)))"

text \<open>
  Merging the two register words: \<^verbatim>\<open>words_count--\<close>, then the word now last becomes the
  bitwise or of itself and the word just dropped.
\<close>

definition merge_register_words :: "16 word list \<Rightarrow> 16 word list" where
  "merge_register_words buff =
     (case rev buff of
        b # a # rest \<Rightarrow> rev ((b OR a) # rest)
      | _ \<Rightarrow> buff)"

text \<open>One iteration of the operand loop, for the operand index \<open>i\<close>.\<close>

definition encode_operand ::
  "opcode \<Rightarrow> operand option \<Rightarrow> operand option \<Rightarrow> nat \<Rightarrow> enc_state
     \<Rightarrow> assembler_context \<Rightarrow> (bool \<times> enc_state \<times> assembler_context) outcome" where
  "encode_operand opc src_operand dest_operand i st0 ctx =
     (let (operand, slot) =
            (if i = 1 \<or> oc_operands_amount opc = 1 then (dest_operand, DESTINATION)
             else (src_operand, SOURCE));
          st = st0\<lparr>machine_word := machine_word st0 AND NOT OPERAND_DATA_BITS_MASK\<rparr>
      in case operand of
           None \<Rightarrow> Return (False, st, print_internal_error 25 ctx)
         | Some p \<Rightarrow>
             (case encode_operand_data slot p st ctx of
                Exit n \<Rightarrow> Exit n
              | Return (False, st1, ctx1) \<Rightarrow> Return (False, st1, ctx1)
              | Return (True, st1, ctx1) \<Rightarrow>
                  if encoding_code (op_encoding p) > U_MAX_NUM E_R_A_BITS
                     \<or> encoding_code (op_encoding p) < U_MIN_NUM
                  then Exit 9
                  else
                    (let mw = (machine_word st1 AND NOT E_R_A_BITS_MASK)
                                OR word_of_int
                                     (push_bit E_R_A_BITS_SHIFT (encoding_code (op_encoding p)));
                         st2 = st1\<lparr>machine_word := mw,
                                   machine_code_buff :=
                                     machine_code_buff st1 @ [mw AND WORD_BIT_MASK],
                                   local_IC := local_IC st1 + 1\<rparr>;
                         st3 = (if i = 1 \<and> oc_operands_amount opc = 2
                                   \<and> src_operand \<noteq> None \<and> dest_operand \<noteq> None
                                   \<and> op_type (the src_operand) = REGISTER_ACCESS
                                   \<and> op_type (the dest_operand) = REGISTER_ACCESS
                                then st2\<lparr>machine_code_buff :=
                                           merge_register_words (machine_code_buff st2),
                                         local_IC := local_IC st2 - 1\<rparr>
                                else st2);
                         st4 = (case op_val p of
                                  Matrix _ _ _ reg_encoding \<Rightarrow>
                                    (let mr = (mat_regs_machine_word st3 AND NOT E_R_A_BITS_MASK)
                                                OR word_of_int
                                                     (push_bit E_R_A_BITS_SHIFT
                                                        (encoding_code reg_encoding))
                                     in st3\<lparr>mat_regs_machine_word := mr,
                                            machine_code_buff :=
                                              machine_code_buff st3 @ [mr AND WORD_BIT_MASK],
                                            local_IC := local_IC st3 + 1\<rparr>)
                                | _ \<Rightarrow> st3)
                     in Return (True, st4, ctx1))))"

text \<open>
  The loop \<^verbatim>\<open>while (i < operands_amount)\<close>: \<open>k\<close> counts the iterations that remain,
  \<open>i\<close> the operand index.
\<close>

fun encode_operands ::
  "opcode \<Rightarrow> operand option \<Rightarrow> operand option \<Rightarrow> nat \<Rightarrow> nat \<Rightarrow> enc_state
     \<Rightarrow> assembler_context \<Rightarrow> (bool \<times> enc_state \<times> assembler_context) outcome" where
  "encode_operands opc src_operand dest_operand 0 i st ctx = Return (True, st, ctx)"
| "encode_operands opc src_operand dest_operand (Suc k) i st ctx =
     (case encode_operand opc src_operand dest_operand i st ctx of
        Exit n \<Rightarrow> Exit n
      | Return (False, st1, ctx1) \<Rightarrow> Return (False, st1, ctx1)
      | Return (True, st1, ctx1) \<Rightarrow>
          encode_operands opc src_operand dest_operand k (Suc i) st1 ctx1)"

text \<open>
  The main word, then the operand loop.  The result is the returned boolean, the buffer
  handed back through \<^verbatim>\<open>encoded_buff_out\<close> (empty when the encoder returns false) and
  the context, in which fix-up requests may have been queued.
\<close>

definition main_word ::
  "opcode \<Rightarrow> operand option \<Rightarrow> operand option \<Rightarrow> (16 word) outcome" where
  "main_word opc src_operand dest_operand =
     (let w0 = (0 :: 16 word) AND NOT (word_of_nat OPCODE_BITS)
      in if oc_opcode opc > U_MAX_NUM OPCODE_BITS \<or> oc_opcode opc < U_MIN_NUM then Exit 2
         else
           (let w1 = (w0 OR word_of_int (push_bit OPCODE_BITS_SHIFT (oc_opcode opc)))
                       AND NOT SRC_ADDR_MODE_BITS_MASK
            in if src_operand \<noteq> None
                  \<and> (addr_mode_code (op_type (the src_operand)) > U_MAX_NUM SRC_ADDR_MODE_BITS
                     \<or> addr_mode_code (op_type (the src_operand)) < U_MIN_NUM)
               then Exit 3
               else
                 (let w2 = (case src_operand of
                              None \<Rightarrow> w1
                            | Some p \<Rightarrow>
                                w1 OR word_of_int
                                        (push_bit SRC_ADDR_MODE_BITS_SHIFT
                                           (addr_mode_code (op_type p))))
                             AND NOT DEST_ADDR_MODE_BITS_MASK
                  in if dest_operand \<noteq> None
                        \<and> (addr_mode_code (op_type (the dest_operand))
                              > U_MAX_NUM DEST_ADDR_MODE_BITS
                           \<or> addr_mode_code (op_type (the dest_operand)) < U_MIN_NUM)
                     then Exit 4
                     else
                       (let w3 = (case dest_operand of
                                    None \<Rightarrow> w2
                                  | Some p \<Rightarrow>
                                      w2 OR word_of_int
                                              (push_bit DEST_ADDR_MODE_BITS_SHIFT
                                                 (addr_mode_code (op_type p))))
                                   AND NOT E_R_A_BITS_MASK
                        in if encoding_code (oc_encoding opc) > U_MAX_NUM E_R_A_BITS
                              \<or> encoding_code (oc_encoding opc) < U_MIN_NUM
                           then Exit 5
                           else Return
                                  ((w3 OR word_of_int
                                            (push_bit E_R_A_BITS_SHIFT
                                               (encoding_code (oc_encoding opc))))
                                     AND WORD_BIT_MASK)))))"

definition instruction_encoder ::
  "opcode \<Rightarrow> operand option \<Rightarrow> operand option \<Rightarrow> assembler_context
     \<Rightarrow> (bool \<times> 16 word list \<times> assembler_context) outcome" where
  "instruction_encoder opc src_operand dest_operand ctx =
     (case main_word opc src_operand dest_operand of
        Exit n \<Rightarrow> Exit n
      | Return w \<Rightarrow>
          (let st = \<lparr>machine_word = 0, mat_regs_machine_word = 0,
                     machine_code_buff = [w], local_IC = IC ctx + 1\<rparr>
           in case encode_operands opc src_operand dest_operand
                     (nat (oc_operands_amount opc mod 65536)) 0 st ctx of
                Exit n \<Rightarrow> Exit n
              | Return (False, st1, ctx1) \<Rightarrow> Return (False, [], ctx1)
              | Return (True, st1, ctx1) \<Rightarrow> Return (True, machine_code_buff st1, ctx1)))"

text \<open>
  \<^verbatim>\<open>get_reg_num\<close> searches the register table; \<^verbatim>\<open>try_parse_reg_operand\<close> fills type,
  register and encoding of the operand it is given and leaves its other fields as they
  were.
\<close>

fun index_of :: "'a \<Rightarrow> 'a list \<Rightarrow> int" where
  "index_of x [] = -1"
| "index_of x (y # ys) =
     (if x = y then 0 else (let r = index_of x ys in if r = -1 then -1 else r + 1))"

definition get_reg_num :: "string \<Rightarrow> int" where
  "get_reg_num str = index_of str registers"

definition is_register :: "string \<Rightarrow> bool" where
  "is_register str = (get_reg_num str \<noteq> -1)"

definition try_parse_reg_operand :: "string \<Rightarrow> operand \<Rightarrow> operand option" where
  "try_parse_reg_operand operand_str p =
     (let reg_num = get_reg_num operand_str
      in if reg_num \<noteq> -1 then Some (p\<lparr>op_val := Reg reg_num, op_encoding := ABSOLUTE\<rparr>)
         else None)"

fun get_opcode_info :: "string \<Rightarrow> opcode list \<Rightarrow> opcode option" where
  "get_opcode_info opcode_name [] = None"
| "get_opcode_info opcode_name (opc # rest) =
     (if oc_name opc = opcode_name then Some opc else get_opcode_info opcode_name rest)"

section \<open>C library functions on strings\<close>

text \<open>
  A C string is a \<open>string\<close> without the terminating NUL.  The character classes are
  those of the C locale.
\<close>

definition isspace :: "char \<Rightarrow> bool" where
  "isspace c = (c \<in> set [CHR '' '', CHR 0x09, CHR 0x0A, CHR 0x0B, CHR 0x0C, CHR 0x0D])"

definition isdigit :: "char \<Rightarrow> bool" where
  "isdigit c = (let n = (of_char c :: nat) in 48 \<le> n \<and> n \<le> 57)"

definition isalpha :: "char \<Rightarrow> bool" where
  "isalpha c = (let n = (of_char c :: nat) in (65 \<le> n \<and> n \<le> 90) \<or> (97 \<le> n \<and> n \<le> 122))"

definition isalnum :: "char \<Rightarrow> bool" where
  "isalnum c = (isalpha c \<or> isdigit c)"

text \<open>
  \<^verbatim>\<open>strtok\<close> skips leading delimiters; if nothing is left it returns NULL, otherwise the
  token up to the next delimiter, which it overwrites with NUL.  The second component is
  the text after that delimiter, where the next call with a NULL argument resumes.
\<close>

definition strtok :: "string \<Rightarrow> string \<Rightarrow> (string \<times> string) option" where
  "strtok delims s =
     (let s1 = dropWhile (\<lambda>c. c \<in> set delims) s
      in if s1 = [] then None
         else Some (takeWhile (\<lambda>c. c \<notin> set delims) s1,
                    drop 1 (dropWhile (\<lambda>c. c \<notin> set delims) s1)))"

text \<open>
  \<^verbatim>\<open>atoi\<close> on an optional sign followed by digits.  For a number outside the range of
  \<^verbatim>\<open>int\<close> the C standard leaves the result open; the model follows the C library of the
  usual 64-bit build, where \<^verbatim>\<open>atoi\<close> is \<^verbatim>\<open>(int) strtol\<close>: the number saturates at the range of
  \<^verbatim>\<open>long\<close> and the conversion to \<^verbatim>\<open>int\<close> keeps its low 32 bits.  So \<^verbatim>\<open>4294967297\<close> reads
  as 1.
\<close>

definition long_to_int :: "int \<Rightarrow> int" where
  "long_to_int v = sint (word_of_int (max (- (2 ^ 63)) (min (2 ^ 63 - 1) v)) :: 32 word)"

fun digits_value :: "int \<Rightarrow> string \<Rightarrow> int" where
  "digits_value acc [] = acc"
| "digits_value acc (c # cs) =
     (if isdigit c then digits_value (10 * acc + (int (of_char c) - 48)) cs else acc)"

definition atoi :: "string \<Rightarrow> int" where
  "atoi s =
     long_to_int
       (case dropWhile isspace s of
          [] \<Rightarrow> 0
        | c # cs \<Rightarrow>
            if c = CHR ''-'' then - digits_value 0 cs
            else if c = CHR ''+'' then digits_value 0 cs
            else digits_value 0 (c # cs))"

section \<open>Names and lines\<close>

definition trim_edge_white_space :: "string \<Rightarrow> string" where
  "trim_edge_white_space str = rev (dropWhile isspace (rev (dropWhile isspace str)))"

text \<open>
  \<^verbatim>\<open>trim_bracket_edge_spaces\<close> walks the line once: after a \<open>[\<close> it deletes the white
  space that follows, at a \<open>]\<close> it deletes the white space just before it.  \<open>acc\<close> is the
  part of the line already walked, reversed; \<open>skip\<close> holds directly after a \<open>[\<close>.
\<close>

fun bracket_walk :: "bool \<Rightarrow> string \<Rightarrow> string \<Rightarrow> string" where
  "bracket_walk skip acc [] = rev acc"
| "bracket_walk skip acc (c # cs) =
     (if skip \<and> isspace c then bracket_walk True acc cs
      else if c = CHR ''['' then bracket_walk True (c # acc) cs
      else if c = CHR '']'' then bracket_walk False (c # dropWhile isspace acc) cs
      else bracket_walk False (c # acc) cs)"

definition trim_bracket_edge_spaces :: "string \<Rightarrow> string" where
  "trim_bracket_edge_spaces line = bracket_walk False [] line"

definition is_single_word :: "string \<Rightarrow> bool" where
  "is_single_word str =
     (let p = dropWhile isspace str
      in p \<noteq> [] \<and> dropWhile isspace (dropWhile (\<lambda>c. \<not> isspace c) p) = [])"

definition is_comment_or_empty_line :: "string \<Rightarrow> bool" where
  "is_comment_or_empty_line line =
     (case dropWhile isspace line of [] \<Rightarrow> True | c # _ \<Rightarrow> c = CHR '';'')"

definition is_name_valid :: "config \<Rightarrow> string \<Rightarrow> bool" where
  "is_name_valid cfg str =
     (if length str > NAME_MAX_LEN cfg then False
      else case str of
             [] \<Rightarrow> False
           | c # cs \<Rightarrow> isalpha c \<and> list_all (\<lambda>x. isalnum x \<or> x = CHR ''_'') cs)"

definition data_directives_table :: "string list" where
  "data_directives_table = [''.data'', ''.string'', ''.mat'']"

definition attributes_directives_table :: "string list" where
  "attributes_directives_table = [''.entry'', ''.extern'']"

definition macro_declaration :: "string list" where
  "macro_declaration = [''mcro'', ''mcroend'']"

definition is_opcode :: "string \<Rightarrow> bool" where
  "is_opcode name = (get_opcode_info name opcode_table \<noteq> None)"

definition is_data_directive :: "string \<Rightarrow> bool" where
  "is_data_directive name = (name \<in> set data_directives_table)"

definition is_attribute_directive :: "string \<Rightarrow> bool" where
  "is_attribute_directive name = (name \<in> set attributes_directives_table)"

definition is_directive :: "string \<Rightarrow> bool" where
  "is_directive name = (is_data_directive name \<or> is_attribute_directive name)"

definition is_PP_saved_name :: "string \<Rightarrow> bool" where
  "is_PP_saved_name name = (name \<in> set macro_declaration)"

definition is_sys_saved_name :: "string \<Rightarrow> bool" where
  "is_sys_saved_name name =
     (is_directive (CHR ''.'' # name) \<or> is_opcode name \<or> is_register name
      \<or> is_PP_saved_name name)"

definition is_label_defined :: "string \<Rightarrow> label list \<Rightarrow> bool" where
  "is_label_defined name labels_list = (find (\<lambda>l. l_name l = name) labels_list \<noteq> None)"

definition get_label :: "string \<Rightarrow> label list \<Rightarrow> label option" where
  "get_label name labels_list = find (\<lambda>l. l_name l = name) labels_list"

definition get_label_address :: "string \<Rightarrow> label list \<Rightarrow> 32 word" where
  "get_label_address name labels_list =
     (case find (\<lambda>l. l_name l = name) labels_list of None \<Rightarrow> 0 | Some l \<Rightarrow> l_address l)"

definition get_macro :: "string \<Rightarrow> macro list \<Rightarrow> macro option" where
  "get_macro name macro_list = find (\<lambda>m. m_name m = name) macro_list"

definition is_macro_defined :: "string \<Rightarrow> macro list \<Rightarrow> bool" where
  "is_macro_defined name macro_list = (get_macro name macro_list \<noteq> None)"

definition is_used_name :: "string \<Rightarrow> assembler_context \<Rightarrow> bool" where
  "is_used_name name ctx =
     (is_label_defined name (labels ctx) \<or> is_macro_defined name (macros ctx))"

definition can_add_name :: "string \<Rightarrow> assembler_context \<Rightarrow> bool" where
  "can_add_name str ctx = (\<not> (is_sys_saved_name str \<or> is_used_name str ctx))"

section \<open>Instruction lines\<close>

text \<open>The number of tokens that further calls of \<^verbatim>\<open>strtok\<close> would still return.\<close>

fun count_tokens :: "string \<Rightarrow> bool \<Rightarrow> string \<Rightarrow> int" where
  "count_tokens delims in_token [] = 0"
| "count_tokens delims in_token (c # cs) =
     (if c \<in> set delims then count_tokens delims False cs
      else (if in_token then 0 else 1) + count_tokens delims True cs)"

text \<open>
  \<^verbatim>\<open>extract_operands\<close> returns the number of operands, or -1 after a format error, and
  the operand strings through \<^verbatim>\<open>src_out\<close> and \<^verbatim>\<open>dest_out\<close>.  When the comma count is
  wrong, the diagnostics look at the first and last character of \<^verbatim>\<open>line\<close>, which by then
  ends where \<^verbatim>\<open>strtok\<close> cut the first token: the leading commas followed by the trimmed
  first token.
\<close>

definition extract_operands ::
  "string \<Rightarrow> assembler_context
     \<Rightarrow> int \<times> string option \<times> string option \<times> assembler_context" where
  "extract_operands line0 ctx =
     (let line = trim_edge_white_space line0
      in if line = [] then (0, None, None, ctx)
         else
           (let comma_count = int (length (filter (\<lambda>c. c = CHR '','') line));
                line1 = trim_bracket_edge_spaces line
            in case strtok '','' line1 of
                 None \<Rightarrow> (0, None, None, ctx)
               | Some (t1, rest1) \<Rightarrow>
                   (let p1 = trim_edge_white_space t1;
                        second = strtok '','' rest1;
                        p2 = map_option (\<lambda>(t2, rest2). trim_edge_white_space t2) second;
                        operands_count =
                          (if p1 \<noteq> [] then 1 else 0)
                          + (case p2 of None \<Rightarrow> 0 | Some q \<Rightarrow> if q \<noteq> [] then 1 else 0)
                          + (case second of
                               None \<Rightarrow> 0
                             | Some (t2, rest2) \<Rightarrow> count_tokens '','' False rest2);
                        cut_line = takeWhile (\<lambda>c. c = CHR '','') line1 @ p1
                    in if \<not> is_single_word p1
                          \<or> (case p2 of None \<Rightarrow> False | Some q \<Rightarrow> \<not> is_single_word q)
                       then (- 1, None, None, print_external_error 119 ctx)
                       else if comma_count \<noteq> operands_count - 1
                       then
                         (let lead = (cut_line \<noteq> [] \<and> hd cut_line = CHR '','');
                              trail = (cut_line \<noteq> [] \<and> last cut_line = CHR '','');
                              ctx1 = (if lead then print_external_error 168 ctx else ctx);
                              ctx2 = (if trail then print_external_error 169 ctx1 else ctx1);
                              ctx3 = (if \<not> lead \<and> \<not> trail then print_external_error 170 ctx2
                                      else ctx2)
                          in (- 1, None, None, ctx3))
                       else if operands_count = 1 then (1, None, Some p1, ctx)
                       else if operands_count = 2 then (2, Some p1, p2, ctx)
                       else (operands_count, None, None, ctx))))"

text \<open>
  The operand parsers fill the operand they are given.  On a format error they report
  the operand as recognised, set the error flag of the first pass and leave the operand
  untouched, so its content is whatever the fresh allocation held.
\<close>

fun immediate_digits :: "nat \<Rightarrow> string \<Rightarrow> string \<Rightarrow> nat + string" where
  "immediate_digits size_of_buff buff [] = Inr buff"
| "immediate_digits size_of_buff buff (c # cs) =
     (if length buff < size_of_buff
      then (if isdigit c then immediate_digits size_of_buff (buff @ [c]) cs
            else if c = CHR ''.'' then Inl 178
            else Inl 172)
      else Inl 120)"

definition try_parse_immediate_operand ::
  "config \<Rightarrow> string \<Rightarrow> operand \<Rightarrow> assembler_context
     \<Rightarrow> bool \<times> operand \<times> assembler_context" where
  "try_parse_immediate_operand cfg operand_str p ctx =
     (case operand_str of
        [] \<Rightarrow> (False, p, ctx)
      | c # rest \<Rightarrow>
          if c \<noteq> CHR ''#'' then (False, p, ctx)
          else
            (let (buff, q) =
                   (case rest of
                      [] \<Rightarrow> ([], [])
                    | d # ds \<Rightarrow> if d = CHR ''-'' \<or> d = CHR ''+'' then ([d], ds) else ([], rest))
             in if q = []
                then (True, p, (print_external_error 171 ctx)\<lparr>first_pass_error := True\<rparr>)
                else case immediate_digits (MAX_NUM_DIGITS cfg + 1) buff q of
                       Inl code \<Rightarrow>
                         (True, p, (print_external_error code ctx)\<lparr>first_pass_error := True\<rparr>)
                     | Inr digits \<Rightarrow>
                         (True, p\<lparr>op_val := Val (atoi digits), op_encoding := ABSOLUTE\<rparr>, ctx)))"

definition try_parse_matrix_operand ::
  "config \<Rightarrow> string \<Rightarrow> operand \<Rightarrow> assembler_context
     \<Rightarrow> bool \<times> operand \<times> assembler_context" where
  "try_parse_matrix_operand cfg operand_str p ctx =
     (let label_name = takeWhile (\<lambda>c. c \<noteq> CHR ''['') operand_str;
          after_name = dropWhile (\<lambda>c. c \<noteq> CHR ''['') operand_str;
          temp1 = takeWhile (\<lambda>c. c \<noteq> CHR '']'') (drop 1 after_name);
          after_1 = dropWhile (\<lambda>c. c \<noteq> CHR '']'') (drop 1 after_name);
          temp2 = takeWhile (\<lambda>c. c \<noteq> CHR '']'') (drop 2 after_1);
          after_2 = dropWhile (\<lambda>c. c \<noteq> CHR '']'') (drop 2 after_1)
      in if list_ex isspace label_name \<or> after_name = [] then (False, p, ctx)
         else if list_ex isspace temp1 \<or> take 2 after_1 \<noteq> '']['' then (False, p, ctx)
         else if list_ex isspace temp2 \<or> after_2 = [] then (False, p, ctx)
         else
           (let e1 = \<not> is_register temp1;
                e2 = \<not> is_register temp2;
                e3 = \<not> is_name_valid cfg label_name;
                ctx1 = (if e1 then print_external_error 110 ctx else ctx);
                ctx2 = (if e2 then print_external_error 111 ctx1 else ctx1);
                ctx3 = (if e3 then print_external_error 112 ctx2 else ctx2)
            in if e1 \<or> e2 \<or> e3 then (True, p, ctx3\<lparr>first_pass_error := True\<rparr>)
               else (True,
                     p\<lparr>op_val := Matrix label_name (get_reg_num temp1) (get_reg_num temp2)
                                    ABSOLUTE,
                       op_encoding := UNKNOWN,
                       op_file_line := am_file_line ctx\<rparr>,
                     ctx)))"

definition try_parse_direct_operand ::
  "config \<Rightarrow> string \<Rightarrow> operand \<Rightarrow> assembler_context \<Rightarrow> operand option" where
  "try_parse_direct_operand cfg operand_str p ctx =
     (if \<not> is_name_valid cfg operand_str then None
      else Some (p\<lparr>op_val := Label operand_str, op_encoding := UNKNOWN,
                   op_file_line := am_file_line ctx\<rparr>))"

definition parse_operand ::
  "config \<Rightarrow> string \<Rightarrow> operand \<Rightarrow> assembler_context
     \<Rightarrow> bool \<times> operand \<times> assembler_context" where
  "parse_operand cfg operand_str p ctx =
     (case try_parse_reg_operand operand_str p of
        Some p1 \<Rightarrow> (True, p1, ctx)
      | None \<Rightarrow>
          (case try_parse_immediate_operand cfg operand_str p ctx of
             (True, p1, ctx1) \<Rightarrow> (True, p1, ctx1)
           | (False, p1, ctx1) \<Rightarrow>
               (case try_parse_matrix_operand cfg operand_str p1 ctx1 of
                  (True, p2, ctx2) \<Rightarrow> (True, p2, ctx2)
                | (False, p2, ctx2) \<Rightarrow>
                    (case try_parse_direct_operand cfg operand_str p2 ctx2 of
                       Some p3 \<Rightarrow> (True, p3, ctx2)
                     | None \<Rightarrow> (False, p2, ctx2)))))"

definition parse_operand_out ::
  "config \<Rightarrow> string option \<Rightarrow> operand \<Rightarrow> assembler_context
     \<Rightarrow> bool \<times> operand \<times> assembler_context" where
  "parse_operand_out cfg operand_str p ctx =
     (case operand_str of
        None \<Rightarrow> (False, p, print_internal_error 25 ctx)
      | Some str \<Rightarrow> parse_operand cfg str p ctx)"

definition handle_one_operand_line ::
  "config \<Rightarrow> opcode \<Rightarrow> string \<Rightarrow> operand \<Rightarrow> assembler_context
     \<Rightarrow> bool \<times> operand \<times> assembler_context" where
  "handle_one_operand_line cfg opcode_info entire_line dest_operand ctx =
     (case extract_operands entire_line ctx of
        (operands_found, src_str, dest_str, ctx1) \<Rightarrow>
          if operands_found = 0 then (False, dest_operand, print_external_error 105 ctx1)
          else if operands_found > 1 then (False, dest_operand, print_external_error 106 ctx1)
          else if operands_found = - 1 then (False, dest_operand, ctx1)
          else
            (case parse_operand_out cfg dest_str dest_operand ctx1 of
               (False, d, ctx2) \<Rightarrow> (False, d, print_external_error 114 ctx2)
             | (True, d, ctx2) \<Rightarrow>
                 if AM_BIT (op_type d) AND oc_dest opcode_info = 0
                 then (False, d, print_external_error 116 ctx2)
                 else (True, d, ctx2)))"

definition handle_two_operands_line ::
  "config \<Rightarrow> opcode \<Rightarrow> string \<Rightarrow> operand \<Rightarrow> operand \<Rightarrow> assembler_context
     \<Rightarrow> bool \<times> operand \<times> operand \<times> assembler_context" where
  "handle_two_operands_line cfg opcode_info entire_line src_operand dest_operand ctx =
     (case extract_operands entire_line ctx of
        (operands_found, src_str, dest_str, ctx1) \<Rightarrow>
          if operands_found = 0
          then (False, src_operand, dest_operand, print_external_error 105 ctx1)
          else if operands_found = 1
          then (False, src_operand, dest_operand, print_external_error 117 ctx1)
          else if operands_found > 2
          then (False, src_operand, dest_operand, print_external_error 106 ctx1)
          else if operands_found = - 1 then (False, src_operand, dest_operand, ctx1)
          else
            (case parse_operand_out cfg src_str src_operand ctx1 of
               (False, s, ctx2) \<Rightarrow> (False, s, dest_operand, print_external_error 113 ctx2)
             | (True, s, ctx2) \<Rightarrow>
                 (case parse_operand_out cfg dest_str dest_operand ctx2 of
                    (False, d, ctx3) \<Rightarrow> (False, s, d, print_external_error 114 ctx3)
                  | (True, d, ctx3) \<Rightarrow>
                      if AM_BIT (op_type s) AND oc_source opcode_info = 0
                      then (False, s, d, print_external_error 115 ctx3)
                      else if AM_BIT (op_type d) AND oc_dest opcode_info = 0
                      then (False, s, d, print_external_error 116 ctx3)
                      else (True, s, d, ctx3))))"

text \<open>
  The words of one instruction go to the code image one by one; the first append that
  fails reports the full memory once and pushes \<^verbatim>\<open>memory_usage\<close> past the limit.
\<close>

fun add_instruction_words ::
  "config \<Rightarrow> 16 word list \<Rightarrow> assembler_context \<Rightarrow> bool \<times> assembler_context" where
  "add_instruction_words cfg [] ctx = (True, ctx)"
| "add_instruction_words cfg (w # ws) ctx =
     (case add_instruction_to_memory cfg w ctx of
        (True, ctx1) \<Rightarrow> add_instruction_words cfg ws ctx1
      | (False, ctx1) \<Rightarrow>
          (False,
           if memory_usage ctx1 = MEMORY_AVAILABLE_SPACE cfg
           then (print_external_error 103 ctx1)\<lparr>memory_usage := memory_usage ctx1 + 1\<rparr>
           else ctx1))"

text \<open>
  After the opcode name is cut off, \<^verbatim>\<open>memmove\<close> shifts the rest of the line to the start
  of the buffer, while the position saved inside \<^verbatim>\<open>strtok\<close> still points behind the
  opcode name.  The check of an instruction without operands resumes \<^verbatim>\<open>strtok\<close> there:
  it sees the rest of the line if that is no longer than the opcode name, and otherwise
  the shifted rest from that position on.
\<close>

definition text_at_saved_position :: "string \<Rightarrow> string \<Rightarrow> string" where
  "text_at_saved_position token rest =
     (if length rest \<le> length token then rest else drop (length token + 1) rest)"

text \<open>
  \<^verbatim>\<open>handle_instruction_line\<close> receives the line as the first pass leaves it: trimmed at
  both ends and, if it began with a label, with the label cut off by
  \<^verbatim>\<open>find_label_definition\<close>.  The model is of a line that starts with its first token,
  which is every line without a label and every labelled line with one white-space
  character after the colon.  With more white space after the colon the line starts with
  white space; when the token then ends the line, the source moves its pointer one byte
  behind the terminator and continues on the bytes an earlier line left in the buffer,
  which the model does not hold.  \<open>fresh_src\<close> and \<open>fresh_dest\<close> stand for the
  indeterminate content of the two operands it allocates.
\<close>

definition handle_instruction_line ::
  "config \<Rightarrow> string \<Rightarrow> operand \<Rightarrow> operand \<Rightarrow> assembler_context
     \<Rightarrow> (bool \<times> assembler_context) outcome" where
  "handle_instruction_line cfg line fresh_src fresh_dest ctx =
     (case strtok [CHR '' '', CHR 0x09, CHR 0x0A] line of
        None \<Rightarrow> Return (False, print_external_error 101 ctx)
      | Some (token, after_token) \<Rightarrow>
          (case get_opcode_info token opcode_table of
             None \<Rightarrow> Return (False, print_external_error 100 ctx)
           | Some opcode_info \<Rightarrow>
               (let rest = (if length line > length token then after_token else []);
                    (ok, src_operand, dest_operand, ctx1) =
                      (if oc_operands_amount opcode_info = 0
                       then (if strtok '' '' (text_at_saved_position token rest) \<noteq> None
                             then (False, None, None, print_external_error 106 ctx)
                             else (True, None, None, ctx))
                       else if oc_operands_amount opcode_info = 1
                       then (case handle_one_operand_line cfg opcode_info rest fresh_dest ctx of
                               (b, d, c) \<Rightarrow> (b, None, Some d, c))
                       else if oc_operands_amount opcode_info = 2
                       then (case handle_two_operands_line cfg opcode_info rest
                                    fresh_src fresh_dest ctx of
                               (b, s, d, c) \<Rightarrow> (b, Some s, Some d, c))
                       else (False, None, None, print_internal_error 26 ctx))
                in if \<not> ok then Return (False, ctx1)
                   else
                     (case instruction_encoder opcode_info src_operand dest_operand ctx1 of
                        Exit n \<Rightarrow> Exit n
                      | Return (False, words, ctx2) \<Rightarrow> Return (False, ctx2)
                      | Return (True, words, ctx2) \<Rightarrow>
                          if memory_usage ctx2 \<le> MEMORY_AVAILABLE_SPACE cfg
                          then Return (add_instruction_words cfg words ctx2)
                          else Return (True, ctx2)))))"

text \<open>A fixed content for freshly allocated operands in the concrete scenarios.\<close>

definition blank_operand :: operand where
  "blank_operand = \<lparr>op_val = Val 0, op_encoding = ABSOLUTE, op_file_line = 0\<rparr>"

section \<open>Data directives\<close>

text \<open>
  The scanner of \<^verbatim>\<open>extract_directive_numbers\<close>, one character at a time.  The states are
  the positions of the source loop: a number is expected, a sign was read, digits are
  being read into the buffer, a number was completed, a comma was read.
\<close>

datatype number_scan =
    Expect_number
  | After_sign char
  | In_number string
  | After_number
  | After_comma

fun scan_numbers :: "number_scan \<Rightarrow> int list \<Rightarrow> string \<Rightarrow> nat + int list" where
  "scan_numbers st arr [] =
     (case st of
        Expect_number \<Rightarrow> Inl 133
      | After_sign sign \<Rightarrow> Inl 130
      | In_number buff \<Rightarrow> Inr (arr @ [atoi buff])
      | After_number \<Rightarrow> Inr arr
      | After_comma \<Rightarrow> Inl 133)"
| "scan_numbers st arr (c # cs) =
     (case st of
        Expect_number \<Rightarrow>
          if c = CHR ''+'' \<or> c = CHR ''-'' then scan_numbers (After_sign c) arr cs
          else if isdigit c then scan_numbers (In_number [c]) arr cs
          else Inl 131
      | After_sign sign \<Rightarrow>
          if isdigit c then scan_numbers (In_number [sign, c]) arr cs else Inl 130
      | In_number buff \<Rightarrow>
          if isdigit c then scan_numbers (In_number (buff @ [c])) arr cs
          else if c = CHR ''.'' then Inl 173
          else if isalpha c then Inl 174
          else if isspace c then scan_numbers After_number (arr @ [atoi buff]) cs
          else if c = CHR '','' then scan_numbers After_comma (arr @ [atoi buff]) cs
          else Inl 132
      | After_number \<Rightarrow>
          if isspace c then scan_numbers After_number arr cs
          else if c = CHR '','' then scan_numbers After_comma arr cs
          else Inl 132
      | After_comma \<Rightarrow>
          if isspace c then scan_numbers After_comma arr cs
          else if c = CHR ''+'' \<or> c = CHR ''-'' then scan_numbers (After_sign c) arr cs
          else if isdigit c then scan_numbers (In_number [c]) arr cs
          else Inl 131)"

definition extract_directive_numbers ::
  "string \<Rightarrow> assembler_context \<Rightarrow> bool \<times> int list \<times> assembler_context" where
  "extract_directive_numbers line ctx =
     (let p = dropWhile isspace line
      in if p = [] then (True, [], ctx)
         else case scan_numbers Expect_number [] p of
                Inl code \<Rightarrow> (False, [], print_external_error code ctx)
              | Inr numbers \<Rightarrow> (True, numbers, ctx))"

fun string_body :: "string \<Rightarrow> string \<Rightarrow> nat + string \<times> string" where
  "string_body buff [] = Inl 126"
| "string_body buff (c # cs) =
     (if c = CHR 0x22 then Inr (buff, cs)
      else if isalnum c \<or> isspace c then string_body (buff @ [c]) cs
      else Inl 125)"

definition extract_directive_string ::
  "string \<Rightarrow> assembler_context \<Rightarrow> string option \<times> assembler_context" where
  "extract_directive_string line ctx =
     (case dropWhile isspace line of
        [] \<Rightarrow> (None, print_external_error 128 ctx)
      | c # cs \<Rightarrow>
          if c \<noteq> CHR 0x22 then (None, print_external_error 124 ctx)
          else case string_body [] cs of
                 Inl code \<Rightarrow> (None, print_external_error code ctx)
               | Inr (buff, rest) \<Rightarrow>
                   if list_ex (\<lambda>x. \<not> isspace x) rest then (None, print_external_error 127 ctx)
                   else (Some buff, ctx))"

text \<open>The characters of the string as integers, followed by the terminating NUL.\<close>

definition parse_string_directive ::
  "string \<Rightarrow> assembler_context \<Rightarrow> bool \<times> int list \<times> assembler_context" where
  "parse_string_directive line ctx =
     (case extract_directive_string (dropWhile isspace line) ctx of
        (None, ctx1) \<Rightarrow> (False, [], ctx1)
      | (Some result, ctx1) \<Rightarrow> (True, map (\<lambda>c. int (of_char c)) result @ [0], ctx1))"

definition parse_data_directive ::
  "string \<Rightarrow> assembler_context \<Rightarrow> bool \<times> int list \<times> assembler_context" where
  "parse_data_directive line ctx =
     (case extract_directive_numbers (dropWhile isspace line) ctx of
        (False, numbers, ctx1) \<Rightarrow> (False, [], ctx1)
      | (True, numbers, ctx1) \<Rightarrow>
          if numbers = [] then (False, [], print_external_error 129 ctx1)
          else (True, numbers, ctx1))"

text \<open>
  \<^verbatim>\<open>sscanf(token, "[%d][%d]%n", &row, &col, &n)\<close>: a conversion \<^verbatim>\<open>%d\<close> skips white space
  and reads an optional sign and at least one digit.  The result is the two numbers and
  the text that follows the second \<open>]\<close>; \<open>None\<close> when the token does not match up to
  there.  A number outside the range of \<^verbatim>\<open>int\<close> is converted as by \<^verbatim>\<open>atoi\<close>, so
  \<^verbatim>\<open>[4294967296]\<close> reads as 0.
\<close>

definition scan_int :: "string \<Rightarrow> (int \<times> string) option" where
  "scan_int s =
     (let p = dropWhile isspace s;
          (sign, q) = (case p of
                         [] \<Rightarrow> ([], [])
                       | c # cs \<Rightarrow> if c = CHR ''-'' \<or> c = CHR ''+'' then ([c], cs) else ([], p));
          digits = takeWhile isdigit q
      in if digits = [] then None
         else Some (atoi (sign @ digits), dropWhile isdigit q))"

definition scan_mat_size :: "string \<Rightarrow> (int \<times> int \<times> string) option" where
  "scan_mat_size token =
     (case token of
        [] \<Rightarrow> None
      | c # cs \<Rightarrow>
          if c \<noteq> CHR ''['' then None
          else case scan_int cs of
                 None \<Rightarrow> None
               | Some (row, r1) \<Rightarrow>
                   if take 2 r1 \<noteq> '']['' then None
                   else case scan_int (drop 2 r1) of
                          None \<Rightarrow> None
                        | Some (col, r2) \<Rightarrow>
                            if take 1 r2 \<noteq> '']'' then None
                            else Some (row, col, drop 1 r2))"

text \<open>
  Modelled from the spec: the macro \<^verbatim>\<open>mat_size\<close> of the missing \<^verbatim>\<open>config.h\<close>, the number
  of cells \<open>rows * cols\<close> of the declared matrix.
\<close>

definition mat_size :: "int \<Rightarrow> int \<Rightarrow> int" where
  "mat_size row col = row * col"

text \<open>
  \<^verbatim>\<open>trim_bracket_edge_spaces\<close> works in place, and \<^verbatim>\<open>parse_mat_directive\<close> compares the
  length of the line before trimming with the length of the size token.  If the trimmed
  line consists of the token alone but trimming removed something, the source steps over
  the terminator and reads what the last \<^verbatim>\<open>memmove\<close> left behind it: when that move
  deleted \<open>k\<close> characters, the last \<open>k - 1\<close> characters of the line as it was before the
  move.  \<open>bracket_stale\<close> computes this text along the same walk as \<open>bracket_walk\<close>;
  \<open>run\<close> collects the white space being deleted after a \<open>[\<close>.
\<close>

definition left_behind :: "string \<Rightarrow> string \<Rightarrow> string" where
  "left_behind run tail = drop (length (run @ tail) - (length run - 1)) (run @ tail)"

fun bracket_stale :: "bool \<Rightarrow> string \<Rightarrow> string \<Rightarrow> string \<Rightarrow> string \<Rightarrow> string" where
  "bracket_stale skip run stale acc [] = (if run \<noteq> [] then left_behind run [] else stale)"
| "bracket_stale skip run stale acc (c # cs) =
     (if skip \<and> isspace c then bracket_stale True (run @ [c]) stale acc cs
      else
        (let stale1 = (if run \<noteq> [] then left_behind run (c # cs) else stale)
         in if c = CHR ''['' then bracket_stale True [] stale1 (c # acc) cs
            else if c = CHR '']''
            then bracket_stale False []
                   (if takeWhile isspace acc \<noteq> []
                    then left_behind (rev (takeWhile isspace acc)) (c # cs)
                    else stale1)
                   (c # dropWhile isspace acc) cs
            else bracket_stale False [] stale1 (c # acc) cs))"

text \<open>
  The result of \<^verbatim>\<open>parse_mat_directive\<close>.  A negative \<^verbatim>\<open>mat_size\<close> compares as a huge
  unsigned number, so the values never exceed it and the source asks \<^verbatim>\<open>handle_realloc\<close>
  for that many cells, which fails and ends the process with system error 11.  When the
  token does not match up to the second \<open>]\<close> the source tests \<open>n\<close> without having set
  it; the model reports error 135 there.
\<close>

definition parse_mat_directive ::
  "string \<Rightarrow> assembler_context \<Rightarrow> (bool \<times> int list \<times> assembler_context) outcome" where
  "parse_mat_directive line0 ctx =
     (let line = dropWhile isspace line0;
          trimmed = trim_bracket_edge_spaces line
      in case strtok '' '' trimmed of
           None \<Rightarrow> Return (False, [], print_external_error 134 ctx)
         | Some (token, after_token) \<Rightarrow>
             (case scan_mat_size token of
                None \<Rightarrow> Return (False, [], print_external_error 135 ctx)
              | Some (row, col, junk) \<Rightarrow>
                  if junk \<noteq> [] \<and> \<not> isspace (hd junk)
                  then Return (False, [], print_external_error 135 ctx)
                  else if row = 0 \<or> col = 0
                  then Return (False, [], print_external_error 136 ctx)
                  else
                    (let rest = (if length line > length token
                                 then (if length trimmed > length token then after_token
                                       else bracket_stale False [] [] [] line)
                                 else [])
                     in case extract_directive_numbers (dropWhile isspace rest) ctx of
                          (False, numbers, ctx1) \<Rightarrow> Return (False, [], ctx1)
                        | (True, numbers, ctx1) \<Rightarrow>
                            if (word_of_nat (length numbers) :: 32 word)
                                 > word_of_int (mat_size row col)
                            then Return (False, [], print_external_error 137 ctx1)
                            else if mat_size row col < 0 then Exit 11
                            else Return (True,
                                   numbers
                                   @ replicate (nat (mat_size row col) - length numbers) 0,
                                   ctx1))))"

text \<open>
  The values of a directive go to the data image one by one; a value outside the signed
  range of a word, or a full memory, stops the loop after the values before it were
  appended.
\<close>

fun add_data_values ::
  "config \<Rightarrow> int list \<Rightarrow> assembler_context \<Rightarrow> bool \<times> assembler_context" where
  "add_data_values cfg [] ctx = (True, ctx)"
| "add_data_values cfg (v # vs) ctx =
     (if v > MAX_NUM WORD_BIT_SIZE \<or> v < MIN_NUM WORD_BIT_SIZE
      then (False, print_external_error 123 ctx)
      else case add_data_to_memory cfg v ctx of
             (True, ctx1) \<Rightarrow> add_data_values cfg vs ctx1
           | (False, ctx1) \<Rightarrow>
               (False,
                if memory_usage ctx1 = MEMORY_AVAILABLE_SPACE cfg
                then print_external_error 103 ctx1 else ctx1))"

definition handle_data_directives_line ::
  "config \<Rightarrow> string \<Rightarrow> assembler_context \<Rightarrow> (bool \<times> assembler_context) outcome" where
  "handle_data_directives_line cfg line0 ctx =
     (let line = dropWhile isspace line0
      in case strtok '' '' line of
           None \<Rightarrow> Return (False, print_external_error 122 ctx)
         | Some (directive_name, after_name) \<Rightarrow>
             (let rest = (if length line > length directive_name then after_name else []);
                  parsed =
                    (if data_directives_table ! 0 = directive_name
                     then Return (parse_data_directive rest ctx)
                     else if data_directives_table ! 2 = directive_name
                     then parse_mat_directive rest ctx
                     else if data_directives_table ! 1 = directive_name
                     then Return (parse_string_directive rest ctx)
                     else Return (False, [], ctx))
              in case parsed of
                   Exit n \<Rightarrow> Exit n
                 | Return (False, values, ctx1) \<Rightarrow> Return (False, ctx1)
                 | Return (True, values, ctx1) \<Rightarrow>
                     if memory_usage ctx1 \<le> MEMORY_AVAILABLE_SPACE cfg
                     then Return (add_data_values cfg values ctx1)
                     else Return (True, ctx1)))"

text \<open>Data words with the given values at consecutive addresses from \<open>a\<close> on.\<close>

fun data_nodes :: "32 word \<Rightarrow> int list \<Rightarrow> data_mem list" where
  "data_nodes a [] = []"
| "data_nodes a (v # vs) = \<lparr>d_value = v, d_address = a\<rparr> # data_nodes (a + 1) vs"

section \<open>Macro preprocessor\<close>

text \<open>
  The source file is the list of the lines that successive calls of \<^verbatim>\<open>fgets\<close> return,
  each with its line terminator; a line longer than the buffer would arrive in pieces.
  The expanded text is kept in \<open>am_file_content\<close> and written to \<open>am_file\<close> by
  \<^verbatim>\<open>create_file\<close>, whose input/output failures are not modelled.
\<close>

definition white_space_delimiters :: string where
  "white_space_delimiters = [CHR '' '', CHR 0x09, CHR 0x0A]"

definition add_lines_to_map :: "int \<Rightarrow> int \<Rightarrow> assembler_context \<Rightarrow> assembler_context" where
  "add_lines_to_map original_line new_line ctx =
     ctx\<lparr>lines_maper := lines_maper ctx @ [(original_line, new_line)]\<rparr>"

definition add_macro ::
  "string \<Rightarrow> string \<Rightarrow> int \<Rightarrow> int \<Rightarrow> assembler_context \<Rightarrow> assembler_context" where
  "add_macro name content lines_amount define_line ctx =
     ctx\<lparr>macros := macros ctx @ [\<lparr>m_name = name, m_content = content,
                                    m_lines = lines_amount, m_define_line = define_line\<rparr>]\<rparr>"

definition is_start_of_macro ::
  "string \<Rightarrow> assembler_context \<Rightarrow> string option \<times> assembler_context" where
  "is_start_of_macro line ctx =
     (case strtok white_space_delimiters line of
        None \<Rightarrow> (None, ctx)
      | Some (token, rest1) \<Rightarrow>
          if token \<noteq> macro_declaration ! 0
          then (if token = macro_declaration ! 1
                then (None, (print_external_error 177 ctx)\<lparr>preproc_error := True\<rparr>)
                else (None, ctx))
          else
            (case strtok white_space_delimiters rest1 of
               None \<Rightarrow> (None, (print_external_error 176 ctx)\<lparr>preproc_error := True\<rparr>)
             | Some (name, rest2) \<Rightarrow>
                 if strtok white_space_delimiters rest2 \<noteq> None
                 then (None, (print_external_error 149 ctx)\<lparr>preproc_error := True\<rparr>)
                 else (Some name, ctx)))"

definition is_end_of_macro :: "string \<Rightarrow> assembler_context \<Rightarrow> bool \<times> assembler_context" where
  "is_end_of_macro line ctx =
     (case strtok white_space_delimiters line of
        None \<Rightarrow> (False, ctx)
      | Some (token, rest) \<Rightarrow>
          if token = macro_declaration ! 1
          then (if strtok white_space_delimiters rest = None then (True, ctx)
                else (True, (print_external_error 150 ctx)\<lparr>preproc_error := True\<rparr>))
          else (False, ctx))"

text \<open>
  \<^verbatim>\<open>read_macro_content\<close> reads lines up to the one that ends the macro.  The result is the
  returned boolean, the collected body, the line count, the lines not yet read and the
  context.  \<open>lines_count\<close> is incremented for every line read.
\<close>

fun read_macro_content ::
  "string list \<Rightarrow> string \<Rightarrow> int \<Rightarrow> assembler_context
     \<Rightarrow> bool \<times> string \<times> int \<times> string list \<times> assembler_context" where
  "read_macro_content [] macro_content lines_count ctx =
     (False, [], lines_count, [], (print_external_error 152 ctx)\<lparr>preproc_error := True\<rparr>)"
| "read_macro_content (temp_line # fp_in) macro_content lines_count ctx =
     (case is_end_of_macro temp_line (ctx\<lparr>as_file_line := as_file_line ctx + 1\<rparr>) of
        (True, ctx1) \<Rightarrow>
          if macro_content = []
          then (False, [], lines_count + 1, fp_in,
                (print_external_error 151 ctx1)\<lparr>preproc_error := True\<rparr>)
          else (True, macro_content, lines_count + 1, fp_in, ctx1)
      | (False, ctx1) \<Rightarrow>
          read_macro_content fp_in (macro_content @ temp_line) (lines_count + 1) ctx1)"

definition is_macro_call ::
  "string \<Rightarrow> assembler_context \<Rightarrow> macro option \<times> assembler_context" where
  "is_macro_call line ctx =
     (case strtok white_space_delimiters line of
        None \<Rightarrow> (None, ctx)
      | Some (token, rest) \<Rightarrow>
          (case get_macro token (macros ctx) of
             None \<Rightarrow> (None, ctx)
           | Some macro_node \<Rightarrow>
               if strtok white_space_delimiters rest = None then (Some macro_node, ctx)
               else (None, (print_external_error 153 ctx)\<lparr>preproc_error := True\<rparr>)))"

text \<open>The loop that maps the lines of an expanded macro body, started with \<open>i = 1\<close>.\<close>

function map_macro_lines ::
  "int \<Rightarrow> int \<Rightarrow> int \<Rightarrow> int \<Rightarrow> assembler_context \<Rightarrow> int \<times> assembler_context" where
  "map_macro_lines i macro_lines macro_line new_line_num ctx =
     (if i < macro_lines
      then map_macro_lines (i + 1) macro_lines (macro_line + 1) (new_line_num + 1)
             (add_lines_to_map macro_line new_line_num ctx)
      else (new_line_num, ctx))"
  by pat_completeness auto
termination
  by (relation "measure (\<lambda>(i, macro_lines, macro_line, new_line_num, ctx). nat (macro_lines - i))")
     auto

lemma read_macro_content_rest:
  "read_macro_content fp_in macro_content lines_count ctx = (ok, content, n, rest, ctx')
     \<Longrightarrow> length rest \<le> length fp_in"
proof (induction fp_in arbitrary: macro_content lines_count ctx)
  case Nil
  then show ?case by simp
next
  case (Cons temp_line fp_in)
  obtain b ctx1 where e:
    "is_end_of_macro temp_line (ctx\<lparr>as_file_line := as_file_line ctx + 1\<rparr>) = (b, ctx1)"
    by (cases "is_end_of_macro temp_line (ctx\<lparr>as_file_line := as_file_line ctx + 1\<rparr>)")
  show ?case
  proof (cases b)
    case True
    with Cons.prems e show ?thesis by (auto split: if_splits)
  next
    case False
    with Cons.prems e have
      "read_macro_content fp_in (macro_content @ temp_line) (lines_count + 1) ctx1
         = (ok, content, n, rest, ctx')"
      by simp
    from Cons.IH [OF this] show ?thesis by simp
  qed
qed

text \<open>
  The main loop of \<^verbatim>\<open>execute_preprocessor\<close> over the lines still to read.  The result is
  false where the source jumps to \<^verbatim>\<open>cleanUp\<close> from inside the loop.
\<close>

function preprocess_lines ::
  "config \<Rightarrow> string list \<Rightarrow> string \<Rightarrow> int \<Rightarrow> int \<Rightarrow> assembler_context
     \<Rightarrow> bool \<times> string \<times> assembler_context" where
  "preprocess_lines cfg [] am_file_content origin_line_num new_line_num ctx =
     (True, am_file_content, ctx)"
| "preprocess_lines cfg (line # as_file) am_file_content origin_line_num0 new_line_num0 ctx0 =
     (let ctx = ctx0\<lparr>as_file_line := as_file_line ctx0 + 1\<rparr>;
          new_line_num = new_line_num0 + 1;
          origin_line_num = origin_line_num0 + 1
      in case is_start_of_macro line ctx of
           (Some macro_name, ctx1) \<Rightarrow>
             (let ctx2 = (if \<not> is_name_valid cfg macro_name
                          then print_external_error 148 ctx1 else ctx1);
                  ctx3 = (if \<not> can_add_name macro_name ctx2
                          then print_external_error 147 ctx2 else ctx2)
              in case read_macro_content as_file [] 0 ctx3 of
                   (False, macro_content, macro_lines_count, rest, ctx4) \<Rightarrow>
                     (False, am_file_content, ctx4)
                 | (True, macro_content, macro_lines_count, rest, ctx4) \<Rightarrow>
                     preprocess_lines cfg rest am_file_content
                       (origin_line_num + macro_lines_count) (new_line_num - 1)
                       (add_macro macro_name macro_content macro_lines_count
                          (as_file_line ctx4 - macro_lines_count) ctx4))
         | (None, ctx1) \<Rightarrow>
             (case is_macro_call line ctx1 of
                (Some macro, ctx2) \<Rightarrow>
                  (case map_macro_lines 1 (m_lines macro) (m_define_line macro + 1)
                          new_line_num ctx2 of
                     (mapped_line_num, ctx3) \<Rightarrow>
                       preprocess_lines cfg as_file
                         (am_file_content
                          @ (case get_macro (m_name macro) (macros ctx2) of
                               None \<Rightarrow> []
                             | Some m \<Rightarrow> m_content m))
                         origin_line_num (mapped_line_num - 1) ctx3)
              | (None, ctx2) \<Rightarrow>
                  preprocess_lines cfg as_file (am_file_content @ line) origin_line_num
                    new_line_num (add_lines_to_map origin_line_num new_line_num ctx2)))"
  by pat_completeness auto
termination
  by (relation "measure (\<lambda>(cfg, as_file, am, origin, new, ctx). length as_file)")
     (auto dest: read_macro_content_rest [OF sym])

definition execute_preprocessor ::
  "config \<Rightarrow> string list \<Rightarrow> assembler_context \<Rightarrow> bool \<times> assembler_context" where
  "execute_preprocessor cfg as_file ctx =
     (case preprocess_lines cfg as_file [] 0 0 ctx of
        (False, am_file_content, ctx1) \<Rightarrow> (False, ctx1\<lparr>preproc_error := True\<rparr>)
      | (True, am_file_content, ctx1) \<Rightarrow>
          if \<not> preproc_error ctx1 then (True, ctx1\<lparr>am_file := Some am_file_content\<rparr>)
          else (False, ctx1\<lparr>preproc_error := True\<rparr>))"

text \<open>A line ends a macro when its first token is \<open>mcroend\<close>.\<close>

definition ends_macro :: "string \<Rightarrow> bool" where
  "ends_macro line =
     (case strtok white_space_delimiters line of
        None \<Rightarrow> False
      | Some (token, rest) \<Rightarrow> token = macro_declaration ! 1)"

text \<open>Sources of the scenarios, line by line.\<close>

definition nl :: string where
  "nl = [CHR 0x0A]"

definition greet_source :: "string list" where
  "greet_source =
     [''mcro GREET'' @ nl, ''mov r1, r2'' @ nl, ''add r1, r2'' @ nl, ''mcroend'' @ nl,
      ''GREET'' @ nl, ''GREET'' @ nl]"

definition reserved_name_source :: "string list" where
  "reserved_name_source = [''mcro mov'' @ nl, ''inc r1'' @ nl, ''mcroend'' @ nl, ''stop'' @ nl]"

section \<open>Relocation and fix-ups of the second pass\<close>

definition update_instruction_addresses :: "config \<Rightarrow> assembler_context \<Rightarrow> assembler_context" where
  "update_instruction_addresses cfg ctx =
     ctx\<lparr>instruction_memory :=
           map (\<lambda>n. n\<lparr>i_address := i_address n + MEMORY_ADDRESS_OFFSET cfg\<rparr>)
               (instruction_memory ctx)\<rparr>"

definition update_data_addresses :: "config \<Rightarrow> assembler_context \<Rightarrow> assembler_context" where
  "update_data_addresses cfg ctx =
     ctx\<lparr>data_memory :=
           map (\<lambda>n. n\<lparr>d_address := d_address n + (IC ctx + MEMORY_ADDRESS_OFFSET cfg)\<rparr>)
               (data_memory ctx)\<rparr>"

definition update_label_address :: "config \<Rightarrow> 32 word \<Rightarrow> label \<Rightarrow> label" where
  "update_label_address cfg ic l =
     (if l_type l = DATA then l\<lparr>l_address := l_address l + (ic + MEMORY_ADDRESS_OFFSET cfg)\<rparr>
      else if l_type l = CODE then l\<lparr>l_address := l_address l + MEMORY_ADDRESS_OFFSET cfg\<rparr>
      else l)"

definition update_labels_addresses :: "config \<Rightarrow> assembler_context \<Rightarrow> assembler_context" where
  "update_labels_addresses cfg ctx =
     ctx\<lparr>labels := map (update_label_address cfg (IC ctx)) (labels ctx)\<rparr>"

definition update_request_list_addresses ::
  "config \<Rightarrow> address_update_request list \<Rightarrow> address_update_request list" where
  "update_request_list_addresses cfg request_list =
     map (\<lambda>r. r\<lparr>r_address := r_address r + MEMORY_ADDRESS_OFFSET cfg\<rparr>) request_list"

definition add_external_usage ::
  "string \<Rightarrow> 32 word \<Rightarrow> assembler_context \<Rightarrow> assembler_context" where
  "add_external_usage label_name mem_addr ctx =
     ctx\<lparr>external_labels :=
           external_labels ctx @ [\<lparr>e_label_name = label_name, e_mem_address = mem_addr\<rparr>]\<rparr>"

definition add_label ::
  "string \<Rightarrow> 32 word \<Rightarrow> addr_type \<Rightarrow> def_type \<Rightarrow> bool \<Rightarrow> label list \<Rightarrow> label list" where
  "add_label new_name address type definition fresh_is_entry labels_list =
     labels_list @ [\<lparr>l_name = new_name, l_address = address, l_type = type,
                      l_definition = definition, l_is_entry = fresh_is_entry\<rparr>]"

definition encode_label_address :: "32 word \<Rightarrow> encoding_type \<Rightarrow> (32 word) outcome" where
  "encode_label_address new_label_addr encoding =
     (if uint new_label_addr > U_MAX_NUM OPERAND_DATA_BITS then Exit 10
      else if encoding_code encoding > U_MAX_NUM E_R_A_BITS then Exit 9
      else
        (let w0 = (0 :: 16 word) AND NOT OPERAND_DATA_BITS_MASK;
             w1 = w0 OR ucast (push_bit OPERAND_DATA_BITS_SHIFT new_label_addr);
             w2 = w1 AND NOT E_R_A_BITS_MASK;
             w3 = w2 OR word_of_int (push_bit E_R_A_BITS_SHIFT (encoding_code encoding))
         in Return (ucast w3)))"

text \<open>The label a request refers to; a request on any other operand is an internal error.\<close>

definition request_label_name :: "address_update_request \<Rightarrow> string option" where
  "request_label_name r =
     (case op_val (r_operand r) of
        Matrix name _ _ _ \<Rightarrow> Some name
      | Label name \<Rightarrow> Some name
      | _ \<Rightarrow> None)"

text \<open>The first node with the address gets the new value.\<close>

fun patch_instruction :: "32 word \<Rightarrow> int \<Rightarrow> inst_mem list \<Rightarrow> inst_mem list" where
  "patch_instruction a v [] = []"
| "patch_instruction a v (n # ns) =
     (if i_address n = a then n\<lparr>i_value := v\<rparr> # ns else n # patch_instruction a v ns)"

text \<open>
  The body of the loop of \<^verbatim>\<open>process_addr_update_requests\<close> for one request: the
  returned boolean (false where the source returns false from inside the loop), the
  request, whose operand carries the encoding the body gave it, and the context.
\<close>

definition process_request ::
  "address_update_request \<Rightarrow> assembler_context
     \<Rightarrow> (bool \<times> address_update_request \<times> assembler_context) outcome" where
  "process_request r ctx =
     (case request_label_name r of
        None \<Rightarrow> Return (False, r, print_internal_error 28 ctx)
      | Some label_name \<Rightarrow>
          if instruction_memory ctx = []
          then Return (False, r, print_internal_error 25 ctx)
          else
            (case find (\<lambda>n. i_address n = r_address r) (instruction_memory ctx) of
               None \<Rightarrow> Return (False, r, print_internal_error 29 ctx)
             | Some instruction_node \<Rightarrow>
                 (case get_label label_name (labels ctx) of
                    None \<Rightarrow>
                      Return (False, r,
                        print_external_error 146
                          (ctx\<lparr>second_pass_error_line := op_file_line (r_operand r)\<rparr>))
                  | Some label \<Rightarrow>
                      (let new_label_addr = get_label_address label_name (labels ctx);
                           encoding = (if l_definition label = EXTERN then EXTERNAL
                                       else RELOCATABLE);
                           ctx1 = (if l_definition label = EXTERN
                                   then add_external_usage label_name (r_address r) ctx
                                   else ctx);
                           r1 = r\<lparr>r_operand := (r_operand r)\<lparr>op_encoding := encoding\<rparr>\<rparr>
                       in case encode_label_address new_label_addr encoding of
                            Exit n \<Rightarrow> Exit n
                          | Return encoded_label_addr \<Rightarrow>
                              Return (True, r1,
                                ctx1\<lparr>instruction_memory :=
                                       patch_instruction (r_address r)
                                         (uint encoded_label_addr)
                                         (instruction_memory ctx1)\<rparr>)))))"

text \<open>
  The loop over the request list.  \<open>done\<close> holds the requests already handled; the
  list of the context is the handled requests followed by the remaining ones.
\<close>

fun process_requests ::
  "address_update_request list \<Rightarrow> address_update_request list \<Rightarrow> assembler_context
     \<Rightarrow> (bool \<times> assembler_context) outcome" where
  "process_requests done [] ctx = Return (True, ctx\<lparr>address_update_requests := done\<rparr>)"
| "process_requests done (r # todo) ctx =
     (case process_request r ctx of
        Exit n \<Rightarrow> Exit n
      | Return (False, r1, ctx1) \<Rightarrow>
          Return (False, ctx1\<lparr>address_update_requests := done @ r # todo\<rparr>)
      | Return (True, r1, ctx1) \<Rightarrow> process_requests (done @ [r1]) todo ctx1)"

definition process_addr_update_requests ::
  "config \<Rightarrow> assembler_context \<Rightarrow> (bool \<times> assembler_context) outcome" where
  "process_addr_update_requests cfg ctx =
     (let requests = update_request_list_addresses cfg (address_update_requests ctx)
      in process_requests [] requests (ctx\<lparr>address_update_requests := requests\<rparr>))"

text \<open>
  The part of \<^verbatim>\<open>execute_second_pass\<close> that follows the scan for \<^verbatim>\<open>.entry\<close> lines: the
  three relocation steps, the fix-ups, and the returned boolean.  The context it receives
  is the one the scan left, with \<open>second_pass_error\<close> set if the scan found an error.
\<close>

definition second_pass_relocation :: "config \<Rightarrow> assembler_context \<Rightarrow> assembler_context" where
  "second_pass_relocation cfg ctx =
     update_labels_addresses cfg (update_data_addresses cfg (update_instruction_addresses cfg ctx))"

definition second_pass_after_scan ::
  "config \<Rightarrow> assembler_context \<Rightarrow> (bool \<times> assembler_context) outcome" where
  "second_pass_after_scan cfg ctx =
     (case process_addr_update_requests cfg (second_pass_relocation cfg ctx) of
        Exit n \<Rightarrow> Exit n
      | Return (False, ctx1) \<Rightarrow> Return (False, ctx1\<lparr>second_pass_error := True\<rparr>)
      | Return (True, ctx1) \<Rightarrow>
          if \<not> second_pass_error ctx1 then Return (True, ctx1)
          else Return (False, ctx1\<lparr>second_pass_error := True\<rparr>))"

text \<open>
  Three notions for stating the properties of the fix-ups: a request resolves to an
  external label when its label name is found in the symbol table with definition
  \<open>EXTERN\<close>; the externals-use record of a request; and the shape in which the first
  pass enters external labels (segment unresolved, address \<open>EXTERNAL_TEMP_ADDR\<close>).
\<close>

definition resolves_external :: "label list \<Rightarrow> address_update_request \<Rightarrow> bool" where
  "resolves_external labels_list r =
     (case request_label_name r of
        None \<Rightarrow> False
      | Some name \<Rightarrow>
          (case get_label name labels_list of
             None \<Rightarrow> False
           | Some l \<Rightarrow> l_definition l = EXTERN))"

definition external_use_of :: "address_update_request \<Rightarrow> external" where
  "external_use_of r =
     \<lparr>e_label_name = (case request_label_name r of Some name \<Rightarrow> name | None \<Rightarrow> []),
      e_mem_address = r_address r\<rparr>"

definition externals_at_zero :: "label list \<Rightarrow> bool" where
  "externals_at_zero labels_list =
     list_all (\<lambda>l. l_definition l = EXTERN \<longrightarrow> l_type l = UNKNOWN_ADDR_TYPE \<and> l_address l = EXTERNAL_TEMP_ADDR) labels_list"

text \<open>
  Two states as the first pass leaves them, used as concrete inputs.  The first is the
  state after the lines \<^verbatim>\<open>.extern X\<close>, \<^verbatim>\<open>LOOP: mov X, r1\<close>, \<^verbatim>\<open>DAT: .data 5, -3\<close>, \<^verbatim>\<open>stop\<close>;
  the second the state after \<^verbatim>\<open>LOOP: mov LOOP, r1\<close>, \<^verbatim>\<open>mov Y, r2\<close>, \<^verbatim>\<open>mov Z, r3\<close>,
  \<^verbatim>\<open>stop\<close>, where neither \<open>Y\<close> nor \<open>Z\<close> is defined.
\<close>

definition extern_scenario :: assembler_context where
  "extern_scenario = init_assembler\<lparr>
     am_file_line := 4, DC := 2, IC := 4, memory_usage := 6,
     data_memory := [\<lparr>d_value = 5, d_address = 0\<rparr>, \<lparr>d_value = - 3, d_address = 1\<rparr>],
     instruction_memory :=
       [\<lparr>i_value = 28, i_address = 0\<rparr>, \<lparr>i_value = 3, i_address = 1\<rparr>,
        \<lparr>i_value = 4, i_address = 2\<rparr>, \<lparr>i_value = 960, i_address = 3\<rparr>],
     labels :=
       [\<lparr>l_name = ''X'', l_address = EXTERNAL_TEMP_ADDR, l_type = UNKNOWN_ADDR_TYPE,
          l_definition = EXTERN, l_is_entry = False\<rparr>,
        \<lparr>l_name = ''LOOP'', l_address = 0, l_type = CODE,
          l_definition = NORMAL, l_is_entry = False\<rparr>,
        \<lparr>l_name = ''DAT'', l_address = 0, l_type = DATA,
          l_definition = NORMAL, l_is_entry = False\<rparr>],
     address_update_requests :=
       [\<lparr>r_operand = \<lparr>op_val = Label ''X'', op_encoding = UNKNOWN, op_file_line = 2\<rparr>,
          r_address = 1\<rparr>]\<rparr>"

definition undefined_scenario :: assembler_context where
  "undefined_scenario = init_assembler\<lparr>
     am_file_line := 4, IC := 10, memory_usage := 10,
     instruction_memory :=
       [\<lparr>i_value = 28, i_address = 0\<rparr>, \<lparr>i_value = 3, i_address = 1\<rparr>,
        \<lparr>i_value = 4, i_address = 2\<rparr>, \<lparr>i_value = 28, i_address = 3\<rparr>,
        \<lparr>i_value = 3, i_address = 4\<rparr>, \<lparr>i_value = 8, i_address = 5\<rparr>,
        \<lparr>i_value = 28, i_address = 6\<rparr>, \<lparr>i_value = 3, i_address = 7\<rparr>,
        \<lparr>i_value = 12, i_address = 8\<rparr>, \<lparr>i_value = 960, i_address = 9\<rparr>],
     labels :=
       [\<lparr>l_name = ''LOOP'', l_address = 0, l_type = CODE,
          l_definition = NORMAL, l_is_entry = False\<rparr>],
     address_update_requests :=
       [\<lparr>r_operand = \<lparr>op_val = Label ''LOOP'', op_encoding = UNKNOWN, op_file_line = 1\<rparr>,
          r_address = 1\<rparr>,
        \<lparr>r_operand = \<lparr>op_val = Label ''Y'', op_encoding = UNKNOWN, op_file_line = 2\<rparr>,
          r_address = 4\<rparr>,
        \<lparr>r_operand = \<lparr>op_val = Label ''Z'', op_encoding = UNKNOWN, op_file_line = 3\<rparr>,
          r_address = 7\<rparr>]\<rparr>"


section \<open>Layout of the encoded words\<close>

text \<open>
  Two auxiliary terms for the proofs: the main word as the encoder computes it from the
  opcode number and the two mode tags, and the merged word of a register pair as the two
  loop iterations and the merge compute it.
\<close>

definition pack_main :: "int \<Rightarrow> int \<Rightarrow> int \<Rightarrow> 16 word" where
  "pack_main c s d =
    (let w0 = (0 :: 16 word) AND NOT (word_of_nat OPCODE_BITS);
         w1 = (w0 OR word_of_int (push_bit OPCODE_BITS_SHIFT c)) AND NOT SRC_ADDR_MODE_BITS_MASK;
         w2 = (w1 OR word_of_int (push_bit SRC_ADDR_MODE_BITS_SHIFT s)) AND NOT DEST_ADDR_MODE_BITS_MASK;
         w3 = (w2 OR word_of_int (push_bit DEST_ADDR_MODE_BITS_SHIFT d)) AND NOT E_R_A_BITS_MASK
     in w3 AND WORD_BIT_MASK)"

definition mode_bits :: "operand option \<Rightarrow> int" where
  "mode_bits q = (case q of None \<Rightarrow> 0 | Some p \<Rightarrow> addr_mode_code (op_type p))"

lemma addr_mode_code_range: "0 \<le> addr_mode_code m \<and> addr_mode_code m \<le> 3"
  by (cases m) simp_all

lemma mode_bits_range: "0 \<le> mode_bits q \<and> mode_bits q \<le> 3"
  using addr_mode_code_range by (cases q) (simp_all add: mode_bits_def del: op_type.simps)

lemma opcode_table_range:
  assumes "opc \<in> set opcode_table"
  shows "0 \<le> oc_opcode opc \<and> oc_opcode opc \<le> 15 \<and> oc_encoding opc = ABSOLUTE
       \<and> 0 \<le> oc_operands_amount opc \<and> oc_operands_amount opc \<le> 2"
  using assms by (auto simp: opcode_table_def mk_opcode_def)

lemma main_word_eq:
  assumes "0 \<le> oc_opcode opc" "oc_opcode opc \<le> 15" "oc_encoding opc = ABSOLUTE"
  shows "main_word opc src dst = Return (pack_main (oc_opcode opc) (mode_bits src) (mode_bits dst))"
proof -
  have s: "\<not> (addr_mode_code m > U_MAX_NUM SRC_ADDR_MODE_BITS \<or> addr_mode_code m < U_MIN_NUM)" for m
    using addr_mode_code_range [of m] by (simp add: field_consts)
  have d: "\<not> (addr_mode_code m > U_MAX_NUM DEST_ADDR_MODE_BITS \<or> addr_mode_code m < U_MIN_NUM)" for m
    using addr_mode_code_range [of m] by (simp add: field_consts)
  have c: "\<not> (oc_opcode opc > U_MAX_NUM OPCODE_BITS \<or> oc_opcode opc < U_MIN_NUM)"
    using assms by (simp add: field_consts)
  have e: "\<not> (encoding_code (oc_encoding opc) > U_MAX_NUM E_R_A_BITS \<or> encoding_code (oc_encoding opc) < U_MIN_NUM)"
    using assms by (simp add: field_consts)
  have z: "word_of_int (push_bit E_R_A_BITS_SHIFT (encoding_code (oc_encoding opc))) = (0 :: 16 word)"
    using assms by simp
  show ?thesis
    unfolding main_word_def pack_main_def mode_bits_def Let_def
    using s d c e z
    by (cases src; cases dst) (simp_all del: op_type.simps)
qed

lemma merge_register_words_head:
  assumes "length buff \<ge> 3"
  shows "hd (merge_register_words buff) = hd buff
       \<and> length (merge_register_words buff) = length buff - 1"
proof -
  from assms obtain b r1 where r: "rev buff = b # r1"
    by (cases "rev buff") auto
  with assms obtain a r2 where r1: "r1 = a # r2"
    by (cases r1) (auto dest: arg_cong [where f = length])
  from r r1 assms have ne: "r2 \<noteq> []"
    by (auto dest: arg_cong [where f = length])
  have buff: "buff = rev r2 @ [a, b]"
    using r r1 by (metis append.assoc append_Cons append_Nil rev.simps(2) rev_rev_ident)
  have "merge_register_words buff = rev r2 @ [b OR a]"
    using r r1 by (simp add: merge_register_words_def)
  then show ?thesis using buff ne by simp
qed

lemma encode_operand_data_buff:
  assumes "encode_operand_data slot p st ctx = Return (ok, st1, ctx1)"
  shows "machine_code_buff st1 = machine_code_buff st"
  using assms
  by (auto simp: encode_operand_data_def Let_def split: operand_val.splits operand_slot.splits if_splits)

lemma encode_operand_head:
  assumes step: "encode_operand opc src dst i st ctx = Return (True, st', ctx')"
    and ne: "machine_code_buff st \<noteq> []"
    and two: "i = 1 \<longrightarrow> length (machine_code_buff st) \<ge> 2"
  shows "hd (machine_code_buff st') = hd (machine_code_buff st)
       \<and> length (machine_code_buff st') \<ge> 2"
proof -
  define st0 where "st0 = st\<lparr>machine_word := machine_word st AND NOT OPERAND_DATA_BITS_MASK\<rparr>"
  define slot where "slot = (if i = 1 \<or> oc_operands_amount opc = 1 then DESTINATION else SOURCE)"
  define q where "q = (if i = 1 \<or> oc_operands_amount opc = 1 then dst else src)"
  from step obtain p where p: "q = Some p"
    by (cases q) (auto simp: encode_operand_def q_def Let_def split: if_splits)
  from step p obtain st1 ctx1 where
    data: "encode_operand_data slot p st0 ctx = Return (True, st1, ctx1)"
    by (auto simp: encode_operand_def q_def slot_def st0_def Let_def
             split: if_splits outcome.splits bool.splits prod.splits)
  have b1: "machine_code_buff st1 = machine_code_buff st"
    using encode_operand_data_buff [OF data] by (simp add: st0_def)
  define mw where "mw = (machine_word st1 AND NOT E_R_A_BITS_MASK)
       OR word_of_int (push_bit E_R_A_BITS_SHIFT (encoding_code (op_encoding p)))"
  define st2 where "st2 = st1\<lparr>machine_word := mw,
       machine_code_buff := machine_code_buff st1 @ [mw AND WORD_BIT_MASK],
       local_IC := local_IC st1 + 1\<rparr>"
  define mg where "mg \<longleftrightarrow> i = 1 \<and> oc_operands_amount opc = 2
                                   \<and> src \<noteq> None \<and> dst \<noteq> None
                                   \<and> op_type (the src) = REGISTER_ACCESS
                                   \<and> op_type (the dst) = REGISTER_ACCESS"
  define st3 where "st3 = (if mg
                                then st2\<lparr>machine_code_buff :=
                                           merge_register_words (machine_code_buff st2),
                                         local_IC := local_IC st2 - 1\<rparr>
                                else st2)"
  have b2: "hd (machine_code_buff st2) = hd (machine_code_buff st)
          \<and> length (machine_code_buff st2) = length (machine_code_buff st) + 1"
    using ne b1 by (simp add: st2_def)
  have b3: "hd (machine_code_buff st3) = hd (machine_code_buff st)
          \<and> length (machine_code_buff st3) \<ge> 2"
  proof (cases mg)
    case True
    then have "i = 1" by (simp add: mg_def)
    then have "length (machine_code_buff st2) \<ge> 3" using two b2 by simp
    from merge_register_words_head [OF this] True b2 two \<open>i = 1\<close> show ?thesis
      by (simp add: st3_def)
  next
    case False
    then have "st3 = st2" by (simp add: st3_def)
    moreover have "length (machine_code_buff st) \<ge> 1" using ne by (cases "machine_code_buff st") auto
    ultimately show ?thesis using b2 by simp
  qed
  have "machine_code_buff st' = machine_code_buff st3
      \<or> (\<exists>w. machine_code_buff st' = machine_code_buff st3 @ [w])"
    using step p data
    by (auto simp: encode_operand_def q_def slot_def st0_def st2_def st3_def mw_def mg_def Let_def
             simp del: op_type.simps
             split: if_splits operand_val.splits)
  then show ?thesis using b3
    by (cases "machine_code_buff st3") auto
qed

lemma encode_operands_head:
  assumes "encode_operands opc src dst k i st ctx = Return (True, st', ctx')"
    and "machine_code_buff st \<noteq> []"
    and "i \<ge> 1 \<longrightarrow> length (machine_code_buff st) \<ge> 2"
  shows "machine_code_buff st' \<noteq> [] \<and> hd (machine_code_buff st') = hd (machine_code_buff st)"
  using assms
proof (induction k arbitrary: i st ctx)
  case 0
  then show ?case by simp
next
  case (Suc k)
  from Suc.prems(1) obtain st1 ctx1 where
    step: "encode_operand opc src dst i st ctx = Return (True, st1, ctx1)"
    and rest: "encode_operands opc src dst k (Suc i) st1 ctx1 = Return (True, st', ctx')"
    by (auto split: outcome.splits bool.splits prod.splits)
  have two: "i = 1 \<longrightarrow> length (machine_code_buff st) \<ge> 2" using Suc.prems(3) by simp
  from encode_operand_head [OF step Suc.prems(2) two]
  have h: "hd (machine_code_buff st1) = hd (machine_code_buff st)"
    and l: "length (machine_code_buff st1) \<ge> 2" by simp_all
  from l have ne1: "machine_code_buff st1 \<noteq> []" by auto
  from Suc.IH [OF rest ne1] l h show ?case by simp
qed

lemma int_range_cases16: "0 \<le> (c::int) \<Longrightarrow> c \<le> 15 \<Longrightarrow> c \<in> {0,1,2,3,4,5,6,7,8,9,10,11,12,13,14,15}"
  by simp presburger

lemma int_range_cases8: "0 \<le> (c::int) \<Longrightarrow> c \<le> 7 \<Longrightarrow> c \<in> {0,1,2,3,4,5,6,7}"
  by simp presburger

lemma int_range_cases4: "0 \<le> (c::int) \<Longrightarrow> c \<le> 3 \<Longrightarrow> c \<in> {0,1,2,3}"
  by simp presburger

definition pack_regs :: "int \<Rightarrow> int \<Rightarrow> 16 word" where
  "pack_regs rs rd =
     (let ws = ((0 :: 16 word) AND NOT OPERAND_DATA_BITS_MASK)
                 OR word_of_int (push_bit OPERAND_DATA_SRC_REG_SHIFT rs);
          ws1 = (ws AND NOT E_R_A_BITS_MASK) OR word_of_int (push_bit E_R_A_BITS_SHIFT 0);
          wd = (ws1 AND NOT OPERAND_DATA_BITS_MASK)
                 OR word_of_int (push_bit OPERAND_DATA_DEST_REG_SHIFT rd);
          wd1 = (wd AND NOT E_R_A_BITS_MASK) OR word_of_int (push_bit E_R_A_BITS_SHIFT 0)
      in (wd1 AND WORD_BIT_MASK) OR (ws1 AND WORD_BIT_MASK))"

lemma index_of_range: "- 1 \<le> index_of x ys \<and> index_of x ys < int (length ys)"
  by (induction ys) (auto simp: Let_def)

lemma get_reg_num_range: "get_reg_num s \<noteq> - 1 \<Longrightarrow> 0 \<le> get_reg_num s \<and> get_reg_num s \<le> 7"
  using index_of_range [of s registers] by (simp add: get_reg_num_def registers_def)

lemma encode_two_registers:
  assumes opc: "0 \<le> oc_opcode opc" "oc_opcode opc \<le> 15" "oc_encoding opc = ABSOLUTE"
    and two: "oc_operands_amount opc = 2"
    and rs: "0 \<le> rs" "rs \<le> 7" and rd: "0 \<le> rd" "rd \<le> 7"
    and src: "src = u1\<lparr>op_val := Reg rs, op_encoding := ABSOLUTE\<rparr>"
    and dst: "dst = u2\<lparr>op_val := Reg rd, op_encoding := ABSOLUTE\<rparr>"
  shows "instruction_encoder opc (Some src) (Some dst) ctx
           = Return (True, [pack_main (oc_opcode opc) 3 3, pack_regs rs rd], ctx)"
proof -
  have m: "main_word opc (Some src) (Some dst) = Return (pack_main (oc_opcode opc) 3 3)"
    using main_word_eq [OF opc, of "Some src" "Some dst"] src dst by (simp add: mode_bits_def)
  have k: "nat (oc_operands_amount opc mod 65536) = Suc (Suc 0)" using two by simp
  have c1: "\<not> (rs > MAX_NUM OPERAND_DATA_SRC_REG_BITS \<or> rs < MIN_NUM OPERAND_DATA_SRC_REG_BITS)"
    using rs by (simp add: field_consts)
  have c2: "\<not> (rd > MAX_NUM OPERAND_DATA_DEST_REG_BITS \<or> rd < MIN_NUM OPERAND_DATA_DEST_REG_BITS)"
    using rd by (simp add: field_consts)
  have c3: "\<not> (encoding_code ABSOLUTE > U_MAX_NUM E_R_A_BITS \<or> encoding_code ABSOLUTE < U_MIN_NUM)"
    by (simp add: field_consts)
  show ?thesis
    unfolding instruction_encoder_def m k
    using c1 c2 c3 two
    by (simp add: encode_operand_def encode_operand_data_def src dst Let_def
          merge_register_words_def pack_regs_def)
qed

lemma field4_at_6:
  fixes x :: "16 word"
  assumes "0 \<le> c" "c \<le> 15" and x: "x = word_of_int (push_bit 6 c)"
  shows "x AND - 49 = x" "x AND - 13 = x" "x AND - 4 = x" "x AND 0x3FF = x" "x AND - 1021 = 0"
    "uint (drop_bit 6 x) = c" "take_bit 2 (drop_bit 4 x) = 0" "take_bit 2 (drop_bit 2 x) = 0"
    "take_bit 4 (drop_bit 2 x) = 0" "take_bit 2 x = 0"
proof -
  have "c \<in> {0,1,2,3,4,5,6,7,8,9,10,11,12,13,14,15}" using assms by (intro int_range_cases16)
  then show "x AND - 49 = x" "x AND - 13 = x" "x AND - 4 = x" "x AND 0x3FF = x" "x AND - 1021 = 0"
    "uint (drop_bit 6 x) = c" "take_bit 2 (drop_bit 4 x) = 0" "take_bit 2 (drop_bit 2 x) = 0"
    "take_bit 4 (drop_bit 2 x) = 0" "take_bit 2 x = 0"
    unfolding x by auto
qed

lemma field2_at_4:
  fixes x :: "16 word"
  assumes "0 \<le> c" "c \<le> 3" and x: "x = word_of_int (push_bit 4 c)"
  shows "x AND - 13 = x" "x AND - 4 = x" "x AND 0x3FF = x"
    "drop_bit 6 x = 0" "uint (take_bit 2 (drop_bit 4 x)) = c" "take_bit 2 (drop_bit 2 x) = 0"
    "take_bit 2 x = 0"
proof -
  have "c \<in> {0,1,2,3}" using assms by (intro int_range_cases4)
  then show "x AND - 13 = x" "x AND - 4 = x" "x AND 0x3FF = x"
    "drop_bit 6 x = 0" "uint (take_bit 2 (drop_bit 4 x)) = c" "take_bit 2 (drop_bit 2 x) = 0"
    "take_bit 2 x = 0"
    unfolding x by auto
qed

lemma field2_at_2:
  fixes x :: "16 word"
  assumes "0 \<le> c" "c \<le> 3" and x: "x = word_of_int (push_bit 2 c)"
  shows "x AND - 4 = x" "x AND 0x3FF = x"
    "drop_bit 6 x = 0" "take_bit 2 (drop_bit 4 x) = 0" "uint (take_bit 2 (drop_bit 2 x)) = c"
    "take_bit 2 x = 0"
proof -
  have "c \<in> {0,1,2,3}" using assms by (intro int_range_cases4)
  then show "x AND - 4 = x" "x AND 0x3FF = x"
    "drop_bit 6 x = 0" "take_bit 2 (drop_bit 4 x) = 0" "uint (take_bit 2 (drop_bit 2 x)) = c"
    "take_bit 2 x = 0"
    unfolding x by auto
qed

lemma reg_at_2:
  fixes x :: "16 word"
  assumes "0 \<le> c" "c \<le> 7" and x: "x = word_of_int (push_bit 2 c)"
  shows "x AND - 4 = x" "x AND 0x3FF = x"
    "drop_bit 6 x = 0" "uint (take_bit 4 (drop_bit 2 x)) = c" "take_bit 2 x = 0"
proof -
  have "c \<in> {0,1,2,3,4,5,6,7}" using assms by (intro int_range_cases8)
  then show "x AND - 4 = x" "x AND 0x3FF = x"
    "drop_bit 6 x = 0" "uint (take_bit 4 (drop_bit 2 x)) = c" "take_bit 2 x = 0"
    unfolding x by auto
qed

lemma or_fields:
  fixes a b :: "16 word"
  shows "(a OR b) AND m = (a AND m) OR (b AND m)"
  by (rule bit.conj_disj_distrib2)

lemma uint_or_zero:
  fixes a :: "16 word"
  shows "uint (a OR 0) = uint a" "uint (0 OR a) = uint a"
  by simp_all

lemma pack_main_fields:
  assumes c: "0 \<le> c" "c \<le> 15" and s: "0 \<le> s" "s \<le> 3" and d: "0 \<le> d" "d \<le> 3"
  shows "uint (drop_bit 6 (pack_main c s d)) = c
       \<and> uint (take_bit 2 (drop_bit 4 (pack_main c s d))) = s
       \<and> uint (take_bit 2 (drop_bit 2 (pack_main c s d))) = d
       \<and> take_bit 2 (pack_main c s d) = 0"
proof -
  define X :: "16 word" where "X = word_of_int (push_bit 6 c)"
  define S :: "16 word" where "S = word_of_int (push_bit 4 s)"
  define D :: "16 word" where "D = word_of_int (push_bit 2 d)"
  note fx = field4_at_6 [OF c X_def] and fs = field2_at_4 [OF s S_def]
    and fd = field2_at_2 [OF d D_def]
  have "pack_main c s d = (X OR S) OR D"
    unfolding pack_main_def field_consts Let_def X_def [symmetric] S_def [symmetric]
      D_def [symmetric]
    by (simp add: or_fields fx fs fd)
  then show ?thesis
    by (simp add: fx fs fd)
qed

lemma pack_regs_fields:
  assumes s: "0 \<le> rs" "rs \<le> 7" and d: "0 \<le> rd" "rd \<le> 7"
  shows "uint (drop_bit 6 (pack_regs rs rd)) = rs
       \<and> uint (take_bit 4 (drop_bit 2 (pack_regs rs rd))) = rd
       \<and> take_bit 2 (pack_regs rs rd) = 0"
proof -
  define X :: "16 word" where "X = word_of_int (push_bit 6 rs)"
  define D :: "16 word" where "D = word_of_int (push_bit 2 rd)"
  have s15: "rs \<le> 15" using s by simp
  note fx = field4_at_6 [OF s(1) s15 X_def] and fd = reg_at_2 [OF d D_def]
  have "pack_regs rs rd = D OR X"
    unfolding pack_regs_def field_consts Let_def X_def [symmetric] D_def [symmetric]
    by (simp add: or_fields fx fd)
  then show ?thesis
    by (simp add: fx fd)
qed

text \<open>
  Claim C7.  Whenever the encoder succeeds on an opcode of the table, the first word of
  its output is the main word: bits 9..6 (and nothing above them) hold the opcode number,
  bits 5..4 the addressing-mode tag of the source operand, or zero without one, bits 3..2
  the tag of the destination operand, or zero without one, and bits 1..0 are 00.
\<close>

theorem main_word_first:
  assumes tab: "opc \<in> set opcode_table"
    and enc: "instruction_encoder opc src dst ctx = Return (True, words, ctx')"
  shows "\<exists>w rest. words = w # rest
           \<and> main_word opc src dst = Return w
           \<and> uint (drop_bit 6 w) = oc_opcode opc
           \<and> uint (take_bit 2 (drop_bit 4 w))
                = (case src of None \<Rightarrow> 0 | Some p \<Rightarrow> addr_mode_code (op_type p))
           \<and> uint (take_bit 2 (drop_bit 2 w))
                = (case dst of None \<Rightarrow> 0 | Some p \<Rightarrow> addr_mode_code (op_type p))
           \<and> take_bit 2 w = 0"
proof -
  from opcode_table_range [OF tab]
  have r: "0 \<le> oc_opcode opc" "oc_opcode opc \<le> 15" "oc_encoding opc = ABSOLUTE"
    by simp_all
  define w where "w = pack_main (oc_opcode opc) (mode_bits src) (mode_bits dst)"
  have m: "main_word opc src dst = Return w"
    unfolding w_def by (rule main_word_eq [OF r])
  define st where "st = \<lparr>machine_word = 0, mat_regs_machine_word = 0,
                     machine_code_buff = [w], local_IC = IC ctx + 1\<rparr>"
  from enc m obtain st1 where
    loop: "encode_operands opc src dst (nat (oc_operands_amount opc mod 65536)) 0 st ctx
             = Return (True, st1, ctx')"
    and words: "words = machine_code_buff st1"
    by (auto simp: instruction_encoder_def st_def Let_def
             split: outcome.splits bool.splits prod.splits)
  have "machine_code_buff st1 \<noteq> [] \<and> hd (machine_code_buff st1) = hd (machine_code_buff st)"
    by (rule encode_operands_head [OF loop]) (simp_all add: st_def)
  then have hd: "words = w # tl words"
    unfolding words by (cases "machine_code_buff st1") (auto simp: st_def)
  from pack_main_fields [OF r(1,2), of "mode_bits src" "mode_bits dst"]
       mode_bits_range [of src] mode_bits_range [of dst]
  have f: "uint (drop_bit 6 w) = oc_opcode opc
         \<and> uint (take_bit 2 (drop_bit 4 w)) = mode_bits src
         \<and> uint (take_bit 2 (drop_bit 2 w)) = mode_bits dst
         \<and> take_bit 2 w = 0"
    by (simp add: w_def)
  show ?thesis
    using hd m f by (auto simp: mode_bits_def simp del: op_type.simps)
qed

text \<open>
  The first scenario of the specification: the line \<open>stop\<close> alone gives \<open>IC = 1\<close>,
  \<open>DC = 0\<close> and the single word 960, which is opcode 15 in bits 9..6 and zero below.
\<close>

theorem main_word_first_witness:
  "mk_opcode 15 ''stop'' 0 AM_NONE AM_NONE ABSOLUTE \<in> set opcode_table
   \<and> instruction_encoder (mk_opcode 15 ''stop'' 0 AM_NONE AM_NONE ABSOLUTE) None None
        init_assembler = Return (True, [960], init_assembler)
   \<and> uint (drop_bit 6 (960 :: 16 word)) = 15
   \<and> take_bit 6 (960 :: 16 word) = 0
   \<and> handle_instruction_line scenario_config ''stop'' blank_operand blank_operand
        init_assembler
       = Return (True, init_assembler\<lparr>IC := 1, memory_usage := 1,
                   instruction_memory := [\<lparr>i_value = 960, i_address = 0\<rparr>]\<rparr>)
   \<and> DC init_assembler = 0"
proof -
  have t: "mk_opcode 15 ''stop'' 0 AM_NONE AM_NONE ABSOLUTE \<in> set opcode_table"
    by (simp add: opcode_table_def)
  have e: "instruction_encoder (mk_opcode 15 ''stop'' 0 AM_NONE AM_NONE ABSOLUTE) None None
        init_assembler = Return (True, [960], init_assembler)"
    by (simp add: instruction_encoder_def main_word_def mk_opcode_def field_consts Let_def)
  have l: "handle_instruction_line scenario_config ''stop'' blank_operand blank_operand
        init_assembler
       = Return (True, init_assembler\<lparr>IC := 1, memory_usage := 1,
                   instruction_memory := [\<lparr>i_value = 960, i_address = 0\<rparr>]\<rparr>)"
    by code_simp
  have d: "DC init_assembler = 0" by (simp add: init_assembler_def)
  from main_word_first [OF t e] t e l d show ?thesis
    by simp
qed

text \<open>
  Claim C1.  For an opcode of the table with two operands, both parsed as registers, the
  encoder succeeds with exactly two words and queues no fix-up: the main word, then one
  word whose bits 9..6 (and nothing above them) hold the source register number, whose
  bits 5..2 hold the destination register number and whose bits 1..0 are 00.
\<close>

theorem two_register_packing:
  assumes tab: "opc \<in> set opcode_table"
    and two: "oc_operands_amount opc = 2"
    and src: "try_parse_reg_operand s1 u1 = Some src"
    and dst: "try_parse_reg_operand s2 u2 = Some dst"
  shows "\<exists>w0 w1. instruction_encoder opc (Some src) (Some dst) ctx = Return (True, [w0, w1], ctx)
           \<and> main_word opc (Some src) (Some dst) = Return w0
           \<and> uint (drop_bit 6 w1) = get_reg_num s1
           \<and> uint (take_bit 4 (drop_bit 2 w1)) = get_reg_num s2
           \<and> take_bit 2 w1 = 0"
proof -
  from opcode_table_range [OF tab]
  have r: "0 \<le> oc_opcode opc" "oc_opcode opc \<le> 15" "oc_encoding opc = ABSOLUTE"
    by simp_all
  from src have s: "get_reg_num s1 \<noteq> - 1"
    and src': "src = u1\<lparr>op_val := Reg (get_reg_num s1), op_encoding := ABSOLUTE\<rparr>"
    by (auto simp: try_parse_reg_operand_def Let_def split: if_splits)
  from dst have d: "get_reg_num s2 \<noteq> - 1"
    and dst': "dst = u2\<lparr>op_val := Reg (get_reg_num s2), op_encoding := ABSOLUTE\<rparr>"
    by (auto simp: try_parse_reg_operand_def Let_def split: if_splits)
  note rs = get_reg_num_range [OF s] and rd = get_reg_num_range [OF d]
  have e: "instruction_encoder opc (Some src) (Some dst) ctx
             = Return (True, [pack_main (oc_opcode opc) 3 3,
                              pack_regs (get_reg_num s1) (get_reg_num s2)], ctx)"
    using rs rd by (intro encode_two_registers [OF r two _ _ _ _ src' dst']) simp_all
  have m: "main_word opc (Some src) (Some dst) = Return (pack_main (oc_opcode opc) 3 3)"
    using main_word_eq [OF r, of "Some src" "Some dst"] src' dst' by (simp add: mode_bits_def)
  from pack_regs_fields [of "get_reg_num s1" "get_reg_num s2"] rs rd e m
  show ?thesis by simp
qed

text \<open>
  The second scenario of the specification: \<open>mov r3, r4\<close> followed by \<open>stop\<close> gives
  \<open>IC = 3\<close>; the packed word 208 holds 3 in bits 9..6 and 4 in bits 5..2.
\<close>

theorem two_register_packing_witness:
  "mk_opcode 0 ''mov'' 2 AM_ALL AM_1_2_3 ABSOLUTE \<in> set opcode_table
   \<and> try_parse_reg_operand ''r3'' blank_operand = Some (blank_operand\<lparr>op_val := Reg 3\<rparr>)
   \<and> try_parse_reg_operand ''r4'' blank_operand = Some (blank_operand\<lparr>op_val := Reg 4\<rparr>)
   \<and> instruction_encoder (mk_opcode 0 ''mov'' 2 AM_ALL AM_1_2_3 ABSOLUTE)
         (Some (blank_operand\<lparr>op_val := Reg 3\<rparr>)) (Some (blank_operand\<lparr>op_val := Reg 4\<rparr>))
         init_assembler
       = Return (True, [60, 208], init_assembler)
   \<and> uint (drop_bit 6 (208 :: 16 word)) = 3
   \<and> uint (take_bit 4 (drop_bit 2 (208 :: 16 word))) = 4
   \<and> take_bit 2 (208 :: 16 word) = 0
   \<and> (\<exists>c1 c2. handle_instruction_line scenario_config ''mov r3, r4'' blank_operand
                    blank_operand init_assembler = Return (True, c1)
              \<and> handle_instruction_line scenario_config ''stop'' blank_operand
                    blank_operand c1 = Return (True, c2)
              \<and> IC c2 = 3 \<and> DC c2 = 0
              \<and> instruction_memory c2
                  = [\<lparr>i_value = 60, i_address = 0\<rparr>, \<lparr>i_value = 208, i_address = 1\<rparr>,
                     \<lparr>i_value = 960, i_address = 2\<rparr>])"
proof -
  define mov where "mov = mk_opcode 0 ''mov'' 2 AM_ALL AM_1_2_3 ABSOLUTE"
  have t: "mov \<in> set opcode_table"
    by (simp add: opcode_table_def mov_def)
  have two: "oc_operands_amount mov = 2" by (simp add: mov_def mk_opcode_def)
  have s: "try_parse_reg_operand ''r3'' blank_operand = Some (blank_operand\<lparr>op_val := Reg 3\<rparr>)"
    by (simp add: try_parse_reg_operand_def get_reg_num_def registers_def blank_operand_def)
  have d: "try_parse_reg_operand ''r4'' blank_operand = Some (blank_operand\<lparr>op_val := Reg 4\<rparr>)"
    by (simp add: try_parse_reg_operand_def get_reg_num_def registers_def blank_operand_def)
  have e: "instruction_encoder mov
         (Some (blank_operand\<lparr>op_val := Reg 3\<rparr>)) (Some (blank_operand\<lparr>op_val := Reg 4\<rparr>))
         init_assembler
       = Return (True, [60, 208], init_assembler)"
    unfolding mov_def by code_simp
  have l1: "handle_instruction_line scenario_config ''mov r3, r4'' blank_operand
                    blank_operand init_assembler
      = Return (True, init_assembler\<lparr>IC := 2, memory_usage := 2,
           instruction_memory := [\<lparr>i_value = 60, i_address = 0\<rparr>,
                                  \<lparr>i_value = 208, i_address = 1\<rparr>]\<rparr>)"
    by code_simp
  have l2: "handle_instruction_line scenario_config ''stop'' blank_operand blank_operand
        (init_assembler\<lparr>IC := 2, memory_usage := 2,
           instruction_memory := [\<lparr>i_value = 60, i_address = 0\<rparr>,
                                  \<lparr>i_value = 208, i_address = 1\<rparr>]\<rparr>)
      = Return (True, init_assembler\<lparr>IC := 3, memory_usage := 3,
           instruction_memory := [\<lparr>i_value = 60, i_address = 0\<rparr>,
                                  \<lparr>i_value = 208, i_address = 1\<rparr>,
                                  \<lparr>i_value = 960, i_address = 2\<rparr>]\<rparr>)"
    by code_simp
  have f: "uint (drop_bit 6 (208 :: 16 word)) = 3
         \<and> uint (take_bit 4 (drop_bit 2 (208 :: 16 word))) = 4
         \<and> take_bit 2 (208 :: 16 word) = 0"
    using two_register_packing [OF t two s d, of init_assembler] e
    by (simp add: get_reg_num_def registers_def)
  from t s d e f l1 l2 show ?thesis
    unfolding mov_def by (simp add: init_assembler_def)
qed

section \<open>Properties of relocation and fix-ups\<close>

lemma find_patch_other:
  "a \<noteq> b \<Longrightarrow> find (\<lambda>n. i_address n = b) (patch_instruction a v ns)
               = find (\<lambda>n. i_address n = b) ns"
  by (induction ns) auto

lemma find_patch_same:
  "find (\<lambda>n. i_address n = a) ns = Some n
     \<Longrightarrow> find (\<lambda>n. i_address n = a) (patch_instruction a v ns) = Some (n\<lparr>i_value := v\<rparr>)"
  by (induction ns) (auto split: if_splits)

lemma patch_addresses: "map i_address (patch_instruction a v ns) = map i_address ns"
  by (induction ns) auto

lemma process_request_frame:
  assumes "process_request r ctx = Return (ok, r1, ctx1)"
  shows "labels ctx1 = labels ctx
       \<and> map i_address (instruction_memory ctx1) = map i_address (instruction_memory ctx)
       \<and> (\<forall>a. a \<noteq> r_address r \<longrightarrow>
             find (\<lambda>n. i_address n = a) (instruction_memory ctx1)
               = find (\<lambda>n. i_address n = a) (instruction_memory ctx))
       \<and> (\<not> ok \<longrightarrow> instruction_memory ctx1 = instruction_memory ctx
                     \<and> external_labels ctx1 = external_labels ctx)"
  using assms
  by (auto simp: process_request_def Let_def print_internal_error_def print_external_error_def
        add_external_usage_def patch_addresses find_patch_other
      split: option.splits if_splits outcome.splits)

lemma process_requests_frame:
  assumes "process_requests done todo ctx = Return (ok, ctx')"
  shows "labels ctx' = labels ctx
       \<and> map i_address (instruction_memory ctx') = map i_address (instruction_memory ctx)
       \<and> (\<forall>a. a \<notin> r_address ` set todo \<longrightarrow>
             find (\<lambda>n. i_address n = a) (instruction_memory ctx')
               = find (\<lambda>n. i_address n = a) (instruction_memory ctx))"
  using assms
proof (induction todo arbitrary: "done" ctx)
  case Nil
  then show ?case by auto
next
  case (Cons r todo)
  from Cons.prems obtain b r1 ctx1 where
    step: "process_request r ctx = Return (b, r1, ctx1)"
    by (auto split: outcome.splits)
  note fr = process_request_frame [OF step]
  show ?case
  proof (cases b)
    case False
    with Cons.prems step have "ctx' = ctx1\<lparr>address_update_requests := done @ r # todo\<rparr>"
      by simp
    then show ?thesis using fr by simp
  next
    case True
    with Cons.prems step have rest: "process_requests (done @ [r1]) todo ctx1 = Return (ok, ctx')"
      by simp
    from Cons.IH [OF rest] fr show ?thesis by auto
  qed
qed

lemma process_request_external:
  assumes step: "process_request r ctx = Return (True, r1, ctx1)"
    and wf: "externals_at_zero (labels ctx)"
  shows "external_labels ctx1
           = external_labels ctx @ map external_use_of (filter (resolves_external (labels ctx)) [r])"
    and "resolves_external (labels ctx) r \<longrightarrow>
           (\<exists>n. find (\<lambda>n. i_address n = r_address r) (instruction_memory ctx1) = Some n
                \<and> i_value n = 1)"
proof -
  from step obtain name node l where
    name: "request_label_name r = Some name"
    and node: "find (\<lambda>n. i_address n = r_address r) (instruction_memory ctx) = Some node"
    and l: "get_label name (labels ctx) = Some l"
    by (auto simp: process_request_def Let_def split: option.splits if_splits outcome.splits)
  show "external_labels ctx1
           = external_labels ctx @ map external_use_of (filter (resolves_external (labels ctx)) [r])"
    using step name node l
    by (auto simp: process_request_def Let_def resolves_external_def external_use_of_def
          add_external_usage_def split: if_splits outcome.splits)
  show "resolves_external (labels ctx) r \<longrightarrow>
           (\<exists>n. find (\<lambda>n. i_address n = r_address r) (instruction_memory ctx1) = Some n
                \<and> i_value n = 1)"
  proof
    assume "resolves_external (labels ctx) r"
    then have ext: "l_definition l = EXTERN"
      using name l by (simp add: resolves_external_def)
    from l have "l \<in> set (labels ctx)"
      by (auto simp: get_label_def find_Some_iff)
    with wf ext have z: "l_address l = 0"
      by (auto simp: externals_at_zero_def list_all_iff EXTERNAL_TEMP_ADDR_def)
    have addr: "get_label_address name (labels ctx) = 0"
      using l z by (simp add: get_label_address_def get_label_def)
    have enc: "encode_label_address 0 EXTERNAL = Return 1"
      by (simp add: encode_label_address_def field_consts Let_def)
    from step name node l ext addr enc
    have "instruction_memory ctx1
            = patch_instruction (r_address r) 1 (instruction_memory ctx)"
      by (auto simp: process_request_def Let_def add_external_usage_def split: if_splits)
    with find_patch_same [OF node, of 1] show
      "\<exists>n. find (\<lambda>n. i_address n = r_address r) (instruction_memory ctx1) = Some n
                \<and> i_value n = 1"
      by simp
  qed
qed

lemma process_requests_external:
  assumes "process_requests done todo ctx = Return (True, ctx')"
    and "externals_at_zero (labels ctx)"
    and "distinct (map r_address todo)"
  shows "external_labels ctx'
           = external_labels ctx @ map external_use_of (filter (resolves_external (labels ctx)) todo)
       \<and> (\<forall>r \<in> set todo. resolves_external (labels ctx) r \<longrightarrow>
             (\<exists>n. find (\<lambda>n. i_address n = r_address r) (instruction_memory ctx') = Some n
                  \<and> i_value n = 1))"
  using assms
proof (induction todo arbitrary: "done" ctx)
  case Nil
  then show ?case by auto
next
  case (Cons r todo)
  from Cons.prems(1) obtain r1 ctx1 where
    step: "process_request r ctx = Return (True, r1, ctx1)"
    and rest: "process_requests (done @ [r1]) todo ctx1 = Return (True, ctx')"
    by (auto split: outcome.splits bool.splits prod.splits)
  note fr = process_request_frame [OF step]
  then have lab: "labels ctx1 = labels ctx" by simp
  have wf1: "externals_at_zero (labels ctx1)" using Cons.prems(2) lab by simp
  have d1: "distinct (map r_address todo)" using Cons.prems(3) by simp
  note ih = Cons.IH [OF rest wf1 d1]
  note ex = process_request_external [OF step Cons.prems(2)]
  have notin: "r_address r \<notin> r_address ` set todo" using Cons.prems(3) by auto
  from process_requests_frame [OF rest] notin
  have keep: "find (\<lambda>n. i_address n = r_address r) (instruction_memory ctx')
                = find (\<lambda>n. i_address n = r_address r) (instruction_memory ctx1)"
    by blast
  show ?case using ih ex keep lab by auto
qed

lemma process_request_requests_indep:
  "process_request r (ctx\<lparr>address_update_requests := X\<rparr>)
     = (case process_request r ctx of
          Exit n \<Rightarrow> Exit n
        | Return (b, r1, c) \<Rightarrow> Return (b, r1, c\<lparr>address_update_requests := X\<rparr>))"
  by (auto simp: process_request_def Let_def print_internal_error_def print_external_error_def
        add_external_usage_def
      split: option.splits outcome.splits)

lemma process_requests_indep:
  "process_requests done todo (ctx\<lparr>address_update_requests := X\<rparr>)
     = process_requests done todo ctx"
proof (induction todo arbitrary: "done" ctx)
  case Nil
  then show ?case by simp
next
  case (Cons r todo)
  show ?case
    by (cases "process_request r ctx")
       (auto simp: process_request_requests_indep Cons.IH split: bool.splits)
qed

lemma process_requests_append:
  assumes "process_requests done pre ctx = Return (True, c1)"
  shows "\<exists>done1. \<forall>rest. process_requests done (pre @ rest) ctx = process_requests done1 rest c1"
  using assms
proof (induction pre arbitrary: "done" ctx)
  case Nil
  then have "c1 = ctx\<lparr>address_update_requests := done\<rparr>" by simp
  then show ?case by (auto simp: process_requests_indep)
next
  case (Cons r pre)
  from Cons.prems obtain r1 ctx1 where
    step: "process_request r ctx = Return (True, r1, ctx1)"
    and rest: "process_requests (done @ [r1]) pre ctx1 = Return (True, c1)"
    by (auto split: outcome.splits bool.splits prod.splits)
  from Cons.IH [OF rest] step show ?case by simp
qed

lemma find_address_defined:
  "find (\<lambda>n. i_address n = a) ns \<noteq> None \<longleftrightarrow> a \<in> set (map i_address ns)"
  by (auto simp: find_None_iff)

lemma request_label_name_relocated [simp]:
  "request_label_name (r\<lparr>r_address := a\<rparr>) = request_label_name r"
  by (simp add: request_label_name_def)

lemma add_label_externals_at_zero:
  assumes "externals_at_zero labels_list"
  shows "externals_at_zero (add_label name ic CODE NORMAL e labels_list)"
    and "externals_at_zero (add_label name dc DATA NORMAL e labels_list)"
    and "externals_at_zero (add_label name EXTERNAL_TEMP_ADDR UNKNOWN_ADDR_TYPE EXTERN e labels_list)"
  using assms by (simp_all add: externals_at_zero_def add_label_def)

lemma label_word_value:
  fixes w :: "16 word"
  shows "((((w AND NOT 0x3FC) AND NOT 0x03) OR 3) AND 0x3FF) = 3"
proof -
  have "((w AND NOT 0x3FC) AND NOT 0x03) AND 0x3FF = w AND (NOT 0x3FC AND NOT 0x03 AND 0x3FF)"
    by (simp add: ac_simps)
  also have "(NOT 0x3FC AND NOT 0x03 AND 0x3FF :: 16 word) = 0" by simp
  finally have z: "((w AND NOT 0x3FC) AND NOT 0x03) AND 0x3FF = 0" by simp
  have "((((w AND NOT 0x3FC) AND NOT 0x03) OR 3) AND 0x3FF)
          = (((w AND NOT 0x3FC) AND NOT 0x03) AND 0x3FF) OR (3 AND 0x3FF)"
    by (rule bit.conj_disj_distrib2)
  then show ?thesis unfolding z by simp
qed

lemma encode_operand_label_word:
  assumes step: "encode_operand opc src dst i st ctx = Return (True, st', ctx')"
    and sel: "(if i = 1 \<or> oc_operands_amount opc = 1 then dst else src) = Some p"
    and lab: "op_val p = Label nm"
    and enc: "op_encoding p = UNKNOWN"
  shows "address_update_requests ctx'
           = address_update_requests ctx @ [\<lparr>r_operand = p, r_address = local_IC st\<rparr>]
       \<and> machine_code_buff st' = machine_code_buff st @ [3]"
proof -
  have nomerge: "\<not> (i = 1 \<and> oc_operands_amount opc = 2 \<and> src \<noteq> None \<and> dst \<noteq> None
                    \<and> op_type (the src) = REGISTER_ACCESS
                    \<and> op_type (the dst) = REGISTER_ACCESS)"
    using sel lab by (auto split: if_splits)
  have w: "((((machine_word st AND NOT OPERAND_DATA_BITS_MASK) AND NOT E_R_A_BITS_MASK)
              OR word_of_int (push_bit E_R_A_BITS_SHIFT (encoding_code UNKNOWN)))
             AND WORD_BIT_MASK) = 3"
    using label_word_value [of "machine_word st"] by (simp add: field_consts)
  show ?thesis
    using step sel lab enc nomerge w
    by (auto simp: encode_operand_def encode_operand_data_def add_addr_update_request_def
          Let_def U_MAX_NUM_def U_MIN_NUM_def E_R_A_BITS_def
        simp del: op_type.simps split: if_splits)
qed

text \<open>
  The two concrete states are what the line handlers of the first pass produce from the
  lines, with the labels entered as the first pass enters them.
\<close>

lemma extern_scenario_first_pass:
  "(let c0 = init_assembler\<lparr>am_file_line := 2,
               labels := add_label ''LOOP'' 0 CODE NORMAL False
                           (add_label ''X'' EXTERNAL_TEMP_ADDR UNKNOWN_ADDR_TYPE EXTERN False [])\<rparr>
    in case handle_instruction_line scenario_config ''mov X, r1'' blank_operand blank_operand c0 of
         Return (True, c1) \<Rightarrow>
           (case handle_data_directives_line scenario_config ''.data 5, -3''
                   (c1\<lparr>am_file_line := 3,
                        labels := add_label ''DAT'' (DC c1) DATA NORMAL False (labels c1)\<rparr>) of
              Return (True, c2) \<Rightarrow>
                handle_instruction_line scenario_config ''stop'' blank_operand blank_operand
                  (c2\<lparr>am_file_line := 4\<rparr>)
            | other \<Rightarrow> other)
       | other \<Rightarrow> other)
   = Return (True, extern_scenario)"
  by code_simp

lemma undefined_scenario_first_pass:
  "(let c0 = init_assembler\<lparr>am_file_line := 1,
               labels := add_label ''LOOP'' 0 CODE NORMAL False []\<rparr>
    in case handle_instruction_line scenario_config ''mov LOOP, r1'' blank_operand blank_operand c0 of
         Return (True, c1) \<Rightarrow>
           (case handle_instruction_line scenario_config ''mov Y, r2'' blank_operand blank_operand
                   (c1\<lparr>am_file_line := 2\<rparr>) of
              Return (True, c2) \<Rightarrow>
                (case handle_instruction_line scenario_config ''mov Z, r3'' blank_operand
                        blank_operand (c2\<lparr>am_file_line := 3\<rparr>) of
                   Return (True, c3) \<Rightarrow>
                     handle_instruction_line scenario_config ''stop'' blank_operand blank_operand
                       (c3\<lparr>am_file_line := 4\<rparr>)
                 | other \<Rightarrow> other)
            | other \<Rightarrow> other)
       | other \<Rightarrow> other)
   = Return (True, undefined_scenario)"
  by code_simp

text \<open>
  Claim C2.  After the three relocation steps of the second pass every code word has its
  address increased by the memory offset and every data word by the memory offset plus
  the final \<open>IC\<close>, values and order unchanged; a label of segment \<open>CODE\<close> has its
  address increased by the offset, a label of segment \<open>DATA\<close> by the offset plus the
  final \<open>IC\<close>, and an external label, entered by the first pass with segment unresolved
  and address 0, still has address 0.
\<close>

theorem relocation_addresses:
  assumes wf: "externals_at_zero (labels ctx)"
  shows "instruction_memory (second_pass_relocation cfg ctx)
           = map (\<lambda>n. n\<lparr>i_address := i_address n + MEMORY_ADDRESS_OFFSET cfg\<rparr>)
               (instruction_memory ctx)
       \<and> data_memory (second_pass_relocation cfg ctx)
           = map (\<lambda>n. n\<lparr>d_address := d_address n + (MEMORY_ADDRESS_OFFSET cfg + IC ctx)\<rparr>)
               (data_memory ctx)
       \<and> IC (second_pass_relocation cfg ctx) = IC ctx
       \<and> list_all2
            (\<lambda>l l'. l_name l' = l_name l \<and> l_type l' = l_type l
                   \<and> l_definition l' = l_definition l \<and> l_is_entry l' = l_is_entry l
                   \<and> (l_type l = CODE \<longrightarrow> l_address l' = l_address l + MEMORY_ADDRESS_OFFSET cfg)
                   \<and> (l_type l = DATA \<longrightarrow>
                        l_address l' = l_address l + MEMORY_ADDRESS_OFFSET cfg + IC ctx)
                   \<and> (l_definition l = EXTERN \<longrightarrow> l_address l' = 0))
            (labels ctx) (labels (second_pass_relocation cfg ctx))"
proof -
  have lab: "labels (second_pass_relocation cfg ctx)
               = map (update_label_address cfg (IC ctx)) (labels ctx)"
    by (simp add: second_pass_relocation_def update_labels_addresses_def
          update_data_addresses_def update_instruction_addresses_def)
  have "list_all2
            (\<lambda>l l'. l_name l' = l_name l \<and> l_type l' = l_type l
                   \<and> l_definition l' = l_definition l \<and> l_is_entry l' = l_is_entry l
                   \<and> (l_type l = CODE \<longrightarrow> l_address l' = l_address l + MEMORY_ADDRESS_OFFSET cfg)
                   \<and> (l_type l = DATA \<longrightarrow>
                        l_address l' = l_address l + MEMORY_ADDRESS_OFFSET cfg + IC ctx)
                   \<and> (l_definition l = EXTERN \<longrightarrow> l_address l' = 0))
            (labels ctx) (map (update_label_address cfg (IC ctx)) (labels ctx))"
    using wf
    by (auto simp: list_all2_map2 list_all2_same externals_at_zero_def list_all_iff
          update_label_address_def EXTERNAL_TEMP_ADDR_def)
  then show ?thesis
    unfolding lab
    by (simp add: second_pass_relocation_def update_labels_addresses_def
          update_data_addresses_def update_instruction_addresses_def add.commute)
qed

text \<open>
  The third scenario of the specification: code at 100..103, data at 104 and 105,
  \<open>LOOP\<close> at 100, \<open>DAT\<close> at 104 and the external \<open>X\<close> at 0.
\<close>

theorem relocation_addresses_witness:
  "externals_at_zero (labels extern_scenario)
   \<and> instruction_memory (second_pass_relocation scenario_config extern_scenario)
       = [\<lparr>i_value = 28, i_address = 100\<rparr>, \<lparr>i_value = 3, i_address = 101\<rparr>,
          \<lparr>i_value = 4, i_address = 102\<rparr>, \<lparr>i_value = 960, i_address = 103\<rparr>]
   \<and> data_memory (second_pass_relocation scenario_config extern_scenario)
       = [\<lparr>d_value = 5, d_address = 104\<rparr>, \<lparr>d_value = - 3, d_address = 105\<rparr>]
   \<and> map (\<lambda>l. (l_name l, l_address l))
        (labels (second_pass_relocation scenario_config extern_scenario))
       = [(''X'', 0), (''LOOP'', 100), (''DAT'', 104)]"
proof -
  have wf: "externals_at_zero (labels extern_scenario)"
    by (simp add: extern_scenario_def externals_at_zero_def init_assembler_def)
  have l: "map (\<lambda>l. (l_name l, l_address l))
        (labels (second_pass_relocation scenario_config extern_scenario))
       = [(''X'', 0), (''LOOP'', 100), (''DAT'', 104)]"
    by (simp add: extern_scenario_def second_pass_relocation_def update_labels_addresses_def
          update_data_addresses_def update_instruction_addresses_def update_label_address_def
          scenario_config_def init_assembler_def EXTERNAL_TEMP_ADDR_def)
  from relocation_addresses [OF wf, of scenario_config] wf l show ?thesis
    by (simp add: extern_scenario_def scenario_config_def init_assembler_def)
qed

text \<open>
  Claim C3.  When the fix-up processing succeeds on requests with pairwise different code
  addresses, the externals-use list grows by exactly one record for each request that
  resolves to an external label, in the order of the requests, holding the label name and
  the relocated code address of the request; and the code word at that address has data
  field 0 and ERA bits \<open>EXTERNAL\<close>.
\<close>

theorem external_fixups:
  assumes run: "process_addr_update_requests cfg ctx = Return (True, ctx')"
    and wf: "externals_at_zero (labels ctx)"
    and dist: "distinct (map r_address (address_update_requests ctx))"
  shows "external_labels ctx'
           = external_labels ctx
             @ map (\<lambda>r. \<lparr>e_label_name = the (request_label_name r),
                         e_mem_address = r_address r + MEMORY_ADDRESS_OFFSET cfg\<rparr>)
                 (filter (resolves_external (labels ctx)) (address_update_requests ctx))
       \<and> (\<forall>r \<in> set (address_update_requests ctx).
             resolves_external (labels ctx) r \<longrightarrow>
               (\<exists>n. find (\<lambda>n. i_address n = r_address r + MEMORY_ADDRESS_OFFSET cfg)
                       (instruction_memory ctx') = Some n
                    \<and> drop_bit 2 (i_value n) = 0
                    \<and> take_bit 2 (i_value n) = encoding_code EXTERNAL))"
proof -
  define f :: "address_update_request \<Rightarrow> address_update_request"
    where "f = (\<lambda>r. r\<lparr>r_address := r_address r + MEMORY_ADDRESS_OFFSET cfg\<rparr>)"
  define reqs where "reqs = map f (address_update_requests ctx)"
  from run have loop: "process_requests [] reqs ctx = Return (True, ctx')"
    by (simp add: process_addr_update_requests_def update_request_list_addresses_def
          Let_def reqs_def f_def process_requests_indep)
  have inj: "inj (\<lambda>a. a + MEMORY_ADDRESS_OFFSET cfg)" by (simp add: inj_on_def)
  have "map r_address reqs
          = map (\<lambda>a. a + MEMORY_ADDRESS_OFFSET cfg) (map r_address (address_update_requests ctx))"
    by (simp add: reqs_def f_def)
  then have d: "distinct (map r_address reqs)"
    using dist inj by (simp add: distinct_map inj_on_def)
  note main = process_requests_external [OF loop wf d]
  have res: "resolves_external (labels ctx) (f r) = resolves_external (labels ctx) r" for r
    by (simp add: resolves_external_def f_def)
  have use: "resolves_external (labels ctx) r \<Longrightarrow>
               external_use_of (f r)
                 = \<lparr>e_label_name = the (request_label_name r),
                    e_mem_address = r_address r + MEMORY_ADDRESS_OFFSET cfg\<rparr>" for r
    by (auto simp: resolves_external_def external_use_of_def f_def split: option.splits)
  have "map external_use_of (filter (resolves_external (labels ctx)) reqs)
          = map (\<lambda>r. \<lparr>e_label_name = the (request_label_name r),
                       e_mem_address = r_address r + MEMORY_ADDRESS_OFFSET cfg\<rparr>)
              (filter (resolves_external (labels ctx)) (address_update_requests ctx))"
    unfolding reqs_def by (simp add: filter_map o_def res use cong: map_cong)
  moreover have "\<forall>r \<in> set (address_update_requests ctx).
             resolves_external (labels ctx) r \<longrightarrow>
               (\<exists>n. find (\<lambda>n. i_address n = r_address r + MEMORY_ADDRESS_OFFSET cfg)
                       (instruction_memory ctx') = Some n
                    \<and> drop_bit 2 (i_value n) = 0
                    \<and> take_bit 2 (i_value n) = encoding_code EXTERNAL)"
  proof (intro ballI impI)
    fix r assume r: "r \<in> set (address_update_requests ctx)"
      and e: "resolves_external (labels ctx) r"
    then have "f r \<in> set reqs" "resolves_external (labels ctx) (f r)"
      by (simp_all add: reqs_def res)
    with main obtain n where
      "find (\<lambda>n. i_address n = r_address (f r)) (instruction_memory ctx') = Some n"
      "i_value n = 1"
      by blast
    then show "\<exists>n. find (\<lambda>n. i_address n = r_address r + MEMORY_ADDRESS_OFFSET cfg)
                       (instruction_memory ctx') = Some n
                    \<and> drop_bit 2 (i_value n) = 0
                    \<and> take_bit 2 (i_value n) = encoding_code EXTERNAL"
      by (auto simp: f_def)
  qed
  ultimately show ?thesis using main by simp
qed

text \<open>
  In the third scenario the one request, on \<open>X\<close> at code address 1, gives the
  externals-use record of \<open>X\<close> at 101 and the word 1 there.
\<close>

theorem external_fixups_witness:
  "process_addr_update_requests scenario_config
       (second_pass_relocation scenario_config extern_scenario)
     = Return (True, (second_pass_relocation scenario_config extern_scenario)\<lparr>
         instruction_memory :=
           [\<lparr>i_value = 28, i_address = 100\<rparr>, \<lparr>i_value = 1, i_address = 101\<rparr>,
            \<lparr>i_value = 4, i_address = 102\<rparr>, \<lparr>i_value = 960, i_address = 103\<rparr>],
         external_labels := [\<lparr>e_label_name = ''X'', e_mem_address = 101\<rparr>],
         address_update_requests :=
           [\<lparr>r_operand = \<lparr>op_val = Label ''X'', op_encoding = EXTERNAL, op_file_line = 2\<rparr>,
              r_address = 101\<rparr>]\<rparr>)
   \<and> externals_at_zero (labels (second_pass_relocation scenario_config extern_scenario))
   \<and> distinct (map r_address
        (address_update_requests (second_pass_relocation scenario_config extern_scenario)))
   \<and> filter (resolves_external (labels (second_pass_relocation scenario_config extern_scenario)))
        (address_update_requests (second_pass_relocation scenario_config extern_scenario))
       = address_update_requests extern_scenario
   \<and> drop_bit 2 (1 :: int) = 0 \<and> take_bit 2 (1 :: int) = encoding_code EXTERNAL"
proof -
  define c where "c = second_pass_relocation scenario_config extern_scenario"
  have run: "process_addr_update_requests scenario_config c
     = Return (True, c\<lparr>
         instruction_memory :=
           [\<lparr>i_value = 28, i_address = 100\<rparr>, \<lparr>i_value = 1, i_address = 101\<rparr>,
            \<lparr>i_value = 4, i_address = 102\<rparr>, \<lparr>i_value = 960, i_address = 103\<rparr>],
         external_labels := [\<lparr>e_label_name = ''X'', e_mem_address = 101\<rparr>],
         address_update_requests :=
           [\<lparr>r_operand = \<lparr>op_val = Label ''X'', op_encoding = EXTERNAL, op_file_line = 2\<rparr>,
              r_address = 101\<rparr>]\<rparr>)"
    unfolding c_def by code_simp
  have wf: "externals_at_zero (labels c)"
    unfolding c_def by code_simp
  have dist: "distinct (map r_address (address_update_requests c))"
    unfolding c_def by code_simp
  have f: "filter (resolves_external (labels c)) (address_update_requests c)
       = address_update_requests extern_scenario"
    unfolding c_def by code_simp
  from external_fixups [OF run wf dist] run wf dist f show ?thesis
    unfolding c_def by simp
qed

text \<open>
  Claim C10.  If the request \<open>r\<close> names a label that the symbol table does not hold,
  while the requests \<open>pre\<close> before it are processed successfully and the code word of
  \<open>r\<close> exists, then the fix-up processing returns false with the undefined-label error
  146 reported for the line of \<open>r\<close>, in the state the requests \<open>pre\<close> left: no request
  of \<open>post\<close> is processed, the code word of each of them is the word the first pass
  wrote (for a label operand the word 3: data field zero, ERA \<open>UNKNOWN\<close>, see
  \<open>encode_operand_label_word\<close>), and the second pass returns false with its error flag
  set.
\<close>

theorem undefined_label_stops_fixups:
  assumes ctx: "ctx = second_pass_relocation cfg ctx0"
    and reqs: "address_update_requests ctx0 = pre @ r # post"
    and name: "request_label_name r = Some name"
    and undef: "\<not> is_label_defined name (labels ctx0)"
    and node: "find (\<lambda>n. i_address n = r_address r + MEMORY_ADDRESS_OFFSET cfg)
                 (instruction_memory ctx) \<noteq> None"
    and pre_ok: "process_addr_update_requests cfg (ctx\<lparr>address_update_requests := pre\<rparr>)
                   = Return (True, c1)"
  shows "\<exists>c'. process_addr_update_requests cfg ctx = Return (False, c')
           \<and> second_pass_after_scan cfg ctx0 = Return (False, c'\<lparr>second_pass_error := True\<rparr>)
           \<and> printed c' = printed c1 @ [External_error 146]
           \<and> second_pass_error_line c' = op_file_line (r_operand r)
           \<and> instruction_memory c' = instruction_memory c1
           \<and> external_labels c' = external_labels c1
           \<and> (\<forall>q \<in> set post. r_address q \<notin> r_address ` set pre \<longrightarrow>
                 find (\<lambda>n. i_address n = r_address q + MEMORY_ADDRESS_OFFSET cfg)
                      (instruction_memory c')
                   = find (\<lambda>n. i_address n = r_address q + MEMORY_ADDRESS_OFFSET cfg)
                       (instruction_memory ctx))"
proof -
  define f :: "address_update_request \<Rightarrow> address_update_request"
    where "f = (\<lambda>r. r\<lparr>r_address := r_address r + MEMORY_ADDRESS_OFFSET cfg\<rparr>)"
  have rq: "address_update_requests ctx = pre @ r # post"
    using reqs ctx
    by (simp add: second_pass_relocation_def update_labels_addresses_def
          update_data_addresses_def update_instruction_addresses_def)
  have names: "map l_name (labels ctx) = map l_name (labels ctx0)"
    unfolding ctx
    by (simp add: second_pass_relocation_def update_labels_addresses_def
          update_data_addresses_def update_instruction_addresses_def
          update_label_address_def o_def)
  have "get_label name (labels ctx) = None"
  proof -
    from undef have "name \<notin> set (map l_name (labels ctx0))"
      by (auto simp: is_label_defined_def find_None_iff)
    with names have "name \<notin> set (map l_name (labels ctx))" by simp
    then show ?thesis by (auto simp: get_label_def find_None_iff)
  qed
  note undef' = this
  from pre_ok have loop_pre: "process_requests [] (map f pre) ctx = Return (True, c1)"
    by (simp add: process_addr_update_requests_def update_request_list_addresses_def
          Let_def f_def process_requests_indep)
  from process_requests_append [OF loop_pre] obtain done1 where
    app: "\<And>rest. process_requests [] (map f pre @ rest) ctx = process_requests done1 rest c1"
    by blast
  have full: "process_addr_update_requests cfg ctx
                = process_requests done1 (f r # map f post) c1"
    using app [of "f r # map f post"] rq
    by (simp add: process_addr_update_requests_def update_request_list_addresses_def
          Let_def f_def process_requests_indep)
  note fr = process_requests_frame [OF loop_pre]
  have node1: "find (\<lambda>n. i_address n = r_address (f r)) (instruction_memory c1) \<noteq> None"
  proof -
    have a: "r_address (f r) = r_address r + MEMORY_ADDRESS_OFFSET cfg" by (simp add: f_def)
    from node have "r_address (f r) \<in> set (map i_address (instruction_memory ctx))"
      unfolding a find_address_defined .
    with fr have "r_address (f r) \<in> set (map i_address (instruction_memory c1))" by simp
    then show ?thesis unfolding find_address_defined .
  qed
  then have ne: "instruction_memory c1 \<noteq> []" by auto
  have lab1: "get_label name (labels c1) = None" using fr undef' by simp
  define c' where "c' = (print_external_error 146
                           (c1\<lparr>second_pass_error_line := op_file_line (r_operand r)\<rparr>))
                          \<lparr>address_update_requests := done1 @ f r # map f post\<rparr>"
  have step: "process_request (f r) c1
                = Return (False, f r,
                    print_external_error 146
                      (c1\<lparr>second_pass_error_line := op_file_line (r_operand r)\<rparr>))"
    using node1 ne lab1 name
    by (auto simp: process_request_def f_def split: option.splits)
  have res: "process_addr_update_requests cfg ctx = Return (False, c')"
    unfolding full c'_def using step by simp
  have sp: "second_pass_after_scan cfg ctx0 = Return (False, c'\<lparr>second_pass_error := True\<rparr>)"
    using res ctx by (simp add: second_pass_after_scan_def)
  have keep: "\<forall>q \<in> set post. r_address q \<notin> r_address ` set pre \<longrightarrow>
                 find (\<lambda>n. i_address n = r_address q + MEMORY_ADDRESS_OFFSET cfg)
                      (instruction_memory c')
                   = find (\<lambda>n. i_address n = r_address q + MEMORY_ADDRESS_OFFSET cfg)
                       (instruction_memory ctx)"
  proof (intro ballI impI)
    fix q assume "q \<in> set post" and nin: "r_address q \<notin> r_address ` set pre"
    have "r_address q + MEMORY_ADDRESS_OFFSET cfg \<notin> r_address ` set (map f pre)"
      using nin by (auto simp: f_def)
    with fr have "find (\<lambda>n. i_address n = r_address q + MEMORY_ADDRESS_OFFSET cfg)
                      (instruction_memory c1)
                   = find (\<lambda>n. i_address n = r_address q + MEMORY_ADDRESS_OFFSET cfg)
                       (instruction_memory ctx)"
      by blast
    then show "find (\<lambda>n. i_address n = r_address q + MEMORY_ADDRESS_OFFSET cfg)
                      (instruction_memory c')
                   = find (\<lambda>n. i_address n = r_address q + MEMORY_ADDRESS_OFFSET cfg)
                       (instruction_memory ctx)"
      by (simp add: c'_def print_external_error_def)
  qed
  show ?thesis
    using res sp keep
    by (intro exI [of _ c']) (simp add: c'_def print_external_error_def)
qed

text \<open>
  With \<open>Y\<close> undefined the request on \<open>LOOP\<close> is patched (word 402 at 101), error 146
  is reported for line 2, and the words of \<open>Y\<close> and \<open>Z\<close> at 104 and 107 stay 3.
\<close>

theorem undefined_label_stops_fixups_witness:
  "address_update_requests undefined_scenario
     = [\<lparr>r_operand = \<lparr>op_val = Label ''LOOP'', op_encoding = UNKNOWN, op_file_line = 1\<rparr>,
          r_address = 1\<rparr>]
       @ \<lparr>r_operand = \<lparr>op_val = Label ''Y'', op_encoding = UNKNOWN, op_file_line = 2\<rparr>,
           r_address = 4\<rparr>
       # [\<lparr>r_operand = \<lparr>op_val = Label ''Z'', op_encoding = UNKNOWN, op_file_line = 3\<rparr>,
            r_address = 7\<rparr>]
   \<and> \<not> is_label_defined ''Y'' (labels undefined_scenario)
   \<and> (\<exists>c'. second_pass_after_scan scenario_config undefined_scenario
              = Return (False, c'\<lparr>second_pass_error := True\<rparr>)
          \<and> printed c' = [External_error 146]
          \<and> second_pass_error_line c' = 2
          \<and> external_labels c' = []
          \<and> instruction_memory c'
              = [\<lparr>i_value = 28, i_address = 100\<rparr>, \<lparr>i_value = 402, i_address = 101\<rparr>,
                 \<lparr>i_value = 4, i_address = 102\<rparr>, \<lparr>i_value = 28, i_address = 103\<rparr>,
                 \<lparr>i_value = 3, i_address = 104\<rparr>, \<lparr>i_value = 8, i_address = 105\<rparr>,
                 \<lparr>i_value = 28, i_address = 106\<rparr>, \<lparr>i_value = 3, i_address = 107\<rparr>,
                 \<lparr>i_value = 12, i_address = 108\<rparr>, \<lparr>i_value = 960, i_address = 109\<rparr>])"
proof -
  define r1 where "r1 = \<lparr>r_operand = \<lparr>op_val = Label ''LOOP'', op_encoding = UNKNOWN,
                                      op_file_line = 1\<rparr>, r_address = 1\<rparr>"
  define r2 where "r2 = \<lparr>r_operand = \<lparr>op_val = Label ''Y'', op_encoding = UNKNOWN,
                                      op_file_line = 2\<rparr>, r_address = 4\<rparr>"
  define r3 where "r3 = \<lparr>r_operand = \<lparr>op_val = Label ''Z'', op_encoding = UNKNOWN,
                                      op_file_line = 3\<rparr>, r_address = 7\<rparr>"
  define c where "c = second_pass_relocation scenario_config undefined_scenario"
  define c1 where "c1 = c\<lparr>
         instruction_memory :=
           [\<lparr>i_value = 28, i_address = 100\<rparr>, \<lparr>i_value = 402, i_address = 101\<rparr>,
            \<lparr>i_value = 4, i_address = 102\<rparr>, \<lparr>i_value = 28, i_address = 103\<rparr>,
            \<lparr>i_value = 3, i_address = 104\<rparr>, \<lparr>i_value = 8, i_address = 105\<rparr>,
            \<lparr>i_value = 28, i_address = 106\<rparr>, \<lparr>i_value = 3, i_address = 107\<rparr>,
            \<lparr>i_value = 12, i_address = 108\<rparr>, \<lparr>i_value = 960, i_address = 109\<rparr>],
         address_update_requests :=
           [\<lparr>r_operand = \<lparr>op_val = Label ''LOOP'', op_encoding = RELOCATABLE,
                            op_file_line = 1\<rparr>, r_address = 101\<rparr>]\<rparr>"
  have reqs: "address_update_requests undefined_scenario = [r1] @ r2 # [r3]"
    by (simp add: undefined_scenario_def r1_def r2_def r3_def)
  have name: "request_label_name r2 = Some ''Y''"
    by (simp add: request_label_name_def r2_def)
  have undef: "\<not> is_label_defined ''Y'' (labels undefined_scenario)"
    by (simp add: is_label_defined_def undefined_scenario_def)
  have node: "find (\<lambda>n. i_address n = r_address r2 + MEMORY_ADDRESS_OFFSET scenario_config)
                 (instruction_memory c) \<noteq> None"
    unfolding c_def r2_def by code_simp
  have pre_ok: "process_addr_update_requests scenario_config
                  (c\<lparr>address_update_requests := [r1]\<rparr>) = Return (True, c1)"
    unfolding c_def c1_def r1_def by code_simp
  have p: "printed c1 = []" "external_labels c1 = []"
    unfolding c1_def c_def by code_simp+
  have m: "instruction_memory c1
              = [\<lparr>i_value = 28, i_address = 100\<rparr>, \<lparr>i_value = 402, i_address = 101\<rparr>,
                 \<lparr>i_value = 4, i_address = 102\<rparr>, \<lparr>i_value = 28, i_address = 103\<rparr>,
                 \<lparr>i_value = 3, i_address = 104\<rparr>, \<lparr>i_value = 8, i_address = 105\<rparr>,
                 \<lparr>i_value = 28, i_address = 106\<rparr>, \<lparr>i_value = 3, i_address = 107\<rparr>,
                 \<lparr>i_value = 12, i_address = 108\<rparr>, \<lparr>i_value = 960, i_address = 109\<rparr>]"
    by (simp add: c1_def)
  from undefined_label_stops_fixups [OF c_def reqs name undef node pre_ok]
  obtain c' where o1: "second_pass_after_scan scenario_config undefined_scenario
                         = Return (False, c'\<lparr>second_pass_error := True\<rparr>)"
    and o2: "printed c' = printed c1 @ [External_error 146]"
    and o3: "second_pass_error_line c' = op_file_line (r_operand r2)"
    and o4: "instruction_memory c' = instruction_memory c1"
    and o5: "external_labels c' = external_labels c1"
    by (elim exE conjE) (rule that)
  have a2: "printed c' = [External_error 146]" unfolding o2 p by simp
  have a3: "second_pass_error_line c' = 2" unfolding o3 r2_def by simp
  have a4: "instruction_memory c'
              = [\<lparr>i_value = 28, i_address = 100\<rparr>, \<lparr>i_value = 402, i_address = 101\<rparr>,
                 \<lparr>i_value = 4, i_address = 102\<rparr>, \<lparr>i_value = 28, i_address = 103\<rparr>,
                 \<lparr>i_value = 3, i_address = 104\<rparr>, \<lparr>i_value = 8, i_address = 105\<rparr>,
                 \<lparr>i_value = 28, i_address = 106\<rparr>, \<lparr>i_value = 3, i_address = 107\<rparr>,
                 \<lparr>i_value = 12, i_address = 108\<rparr>, \<lparr>i_value = 960, i_address = 109\<rparr>]"
    unfolding o4 by (rule m)
  have a5: "external_labels c' = []" unfolding o5 by (rule p)
  show ?thesis
  proof (intro conjI exI [of _ c'])
    show "address_update_requests undefined_scenario
     = [\<lparr>r_operand = \<lparr>op_val = Label ''LOOP'', op_encoding = UNKNOWN, op_file_line = 1\<rparr>,
          r_address = 1\<rparr>]
       @ \<lparr>r_operand = \<lparr>op_val = Label ''Y'', op_encoding = UNKNOWN, op_file_line = 2\<rparr>,
           r_address = 4\<rparr>
       # [\<lparr>r_operand = \<lparr>op_val = Label ''Z'', op_encoding = UNKNOWN, op_file_line = 3\<rparr>,
            r_address = 7\<rparr>]"
      using reqs unfolding r1_def r2_def r3_def .
  qed (fact undef o1 a2 a3 a4 a5)+
qed

section \<open>Properties of the data directives\<close>

lemma length_data_nodes [simp]: "length (data_nodes a vs) = length vs"
  by (induction vs arbitrary: a) simp_all








text \<open>
  Claim C8.  The size check of \<^verbatim>\<open>parse_mat_directive\<close> rejects a declaration only when
  \<open>rows\<close> or \<open>cols\<close> is zero.  With both negative the product is positive and the
  directive is accepted: \<open>.mat [-2][-2] 1,2,3,4\<close> appends four words.
\<close>

theorem mat_negative_dimensions_accepted:
  "handle_data_directives_line scenario_config ''.mat [-2][-2] 1,2,3,4'' init_assembler
     = Return (True, init_assembler\<lparr>DC := 4, memory_usage := 4,
         data_memory := [\<lparr>d_value = 1, d_address = 0\<rparr>, \<lparr>d_value = 2, d_address = 1\<rparr>,
                         \<lparr>d_value = 3, d_address = 2\<rparr>, \<lparr>d_value = 4, d_address = 3\<rparr>]\<rparr>)"
  by code_simp

text \<open>
  With positive sizes the directive behaves as the claim describes: missing values are
  padded with zeros, surplus values are error 137 and leave the data image alone, and a
  zero size is error 136.  With one negative size the process ends in
  \<^verbatim>\<open>handle_realloc\<close>.
\<close>

lemma mat_directive_examples:
  "handle_data_directives_line scenario_config ''.mat [2][2] 1,2'' init_assembler
     = Return (True, init_assembler\<lparr>DC := 4, memory_usage := 4,
         data_memory := [\<lparr>d_value = 1, d_address = 0\<rparr>, \<lparr>d_value = 2, d_address = 1\<rparr>,
                         \<lparr>d_value = 0, d_address = 2\<rparr>, \<lparr>d_value = 0, d_address = 3\<rparr>]\<rparr>)"
  "handle_data_directives_line scenario_config ''.mat [2][2] 1,2,3,4,5'' init_assembler
     = Return (False, init_assembler\<lparr>printed := [External_error 137]\<rparr>)"
  "handle_data_directives_line scenario_config ''.mat [0][2] 1,2'' init_assembler
     = Return (False, init_assembler\<lparr>printed := [External_error 136]\<rparr>)"
  "handle_data_directives_line scenario_config ''.mat [-2][2] 1,2'' init_assembler = Exit 11"
  by code_simp+

section \<open>Properties of the preprocessor\<close>

lemma is_end_of_macro_fst: "fst (is_end_of_macro line ctx) = ends_macro line"
  by (simp add: is_end_of_macro_def ends_macro_def split: option.splits prod.splits)

lemma read_macro_content_count:
  assumes "\<forall>l \<in> set body. \<not> ends_macro l"
    and "ends_macro end_line"
    and "macro_content @ concat body \<noteq> []"
  shows "\<exists>ctx'. read_macro_content (body @ end_line # rest) macro_content lines_count ctx
           = (True, macro_content @ concat body, lines_count + int (length body) + 1, rest, ctx')"
  using assms
proof (induction body arbitrary: macro_content lines_count ctx)
  case Nil
  obtain b ctx1 where e:
    "is_end_of_macro end_line (ctx\<lparr>as_file_line := as_file_line ctx + 1\<rparr>) = (b, ctx1)"
    by (cases "is_end_of_macro end_line (ctx\<lparr>as_file_line := as_file_line ctx + 1\<rparr>)")
  with is_end_of_macro_fst [of end_line "ctx\<lparr>as_file_line := as_file_line ctx + 1\<rparr>"] Nil.prems
  have "b" by simp
  with e Nil.prems show ?case by simp
next
  case (Cons l body)
  obtain b ctx1 where e:
    "is_end_of_macro l (ctx\<lparr>as_file_line := as_file_line ctx + 1\<rparr>) = (b, ctx1)"
    by (cases "is_end_of_macro l (ctx\<lparr>as_file_line := as_file_line ctx + 1\<rparr>)")
  with is_end_of_macro_fst [of l "ctx\<lparr>as_file_line := as_file_line ctx + 1\<rparr>"] Cons.prems
  have nb: "\<not> b" by simp
  have "\<exists>ctx'. read_macro_content (body @ end_line # rest) (macro_content @ l) (lines_count + 1) ctx1
           = (True, (macro_content @ l) @ concat body,
              (lines_count + 1) + int (length body) + 1, rest, ctx')"
    using Cons.prems by (intro Cons.IH) simp_all
  with e nb show ?case by simp
qed

text \<open>
  Claim C6.  \<^verbatim>\<open>read_macro_content\<close> counts every line it reads, the closing \<open>mcroend\<close>
  line included (\<open>read_macro_content_count\<close>): a body of \<open>N\<close> lines is recorded with
  line count \<open>N + 1\<close>.  For the macro \<open>GREET\<close> of the sixth scenario, whose body has two
  lines, the macro table records 3.
\<close>

theorem greet_macro_line_count:
  "fst (execute_preprocessor scenario_config greet_source init_assembler)
   \<and> macros (snd (execute_preprocessor scenario_config greet_source init_assembler))
       = [\<lparr>m_name = ''GREET'', m_content = ''mov r1, r2'' @ nl @ ''add r1, r2'' @ nl,
           m_lines = 3, m_define_line = 1\<rparr>]
   \<and> am_file (snd (execute_preprocessor scenario_config greet_source init_assembler))
       = Some (''mov r1, r2'' @ nl @ ''add r1, r2'' @ nl @ ''mov r1, r2'' @ nl
               @ ''add r1, r2'' @ nl)
   \<and> lines_maper (snd (execute_preprocessor scenario_config greet_source init_assembler))
       = [(2, 1), (3, 2), (2, 3), (3, 4)]"
  by code_simp

text \<open>
  Claim C5.  An invalid or unavailable macro name is reported (error 148 or 147) but,
  unlike every other error of the preprocessor, does not set \<open>preproc_error\<close>: on a
  source that defines a macro named \<open>mov\<close> the preprocessor reports error 147, returns
  true and writes the expanded file.
\<close>

theorem reserved_macro_name_not_fatal:
  "execute_preprocessor scenario_config reserved_name_source init_assembler
     = (True, init_assembler\<lparr>
          as_file_line := 4,
          macros := [\<lparr>m_name = ''mov'', m_content = ''inc r1'' @ nl, m_lines = 2,
                      m_define_line = 1\<rparr>],
          lines_maper := [(4, 1)],
          am_file := Some (''stop'' @ nl),
          printed := [External_error 147]\<rparr>)"
  by code_simp

end
